theory Spec2Isabelle
  imports Main
begin

section \<open>Characters and case conversion of keys\<close>

text \<open>
  The client converts object keys between the camelCase of its own object model and the
  snake_case of the remote REST API. Both converters are regular-expression replacements
  over ASCII letter classes:
  \<^verbatim>\<open>str.replace(/_([a-z])/g, (_, letter) => letter.toUpperCase())\<close> and
  \<^verbatim>\<open>str.replace(/[A-Z]/g, (letter) => `_${letter.toLowerCase()}`)\<close>.
  Strings are modelled as lists of characters; the letter classes \<open>[a-z]\<close> and \<open>[A-Z]\<close> are
  the code ranges 97..122 and 65..90, on which the case mappings add or subtract 32.
\<close>

definition is_lower :: "char \<Rightarrow> bool" where
  "is_lower c = (97 \<le> (of_char c :: nat) \<and> (of_char c :: nat) \<le> 122)"

definition is_upper :: "char \<Rightarrow> bool" where
  "is_upper c = (65 \<le> (of_char c :: nat) \<and> (of_char c :: nat) \<le> 90)"

definition toUpperCase_char :: "char \<Rightarrow> char" where
  "toUpperCase_char c = (if is_lower c then char_of ((of_char c :: nat) - 32) else c)"

definition toLowerCase_char :: "char \<Rightarrow> char" where
  "toLowerCase_char c = (if is_upper c then char_of ((of_char c :: nat) + 32) else c)"

text \<open>
  \<open>snakeToCamel\<close>: the global replacement scans from the left; at an underscore that is
  followed by a lower-case letter both characters are consumed and the upper-cased letter is
  emitted, anywhere else one character is copied.
\<close>

fun snakeToCamel :: "string \<Rightarrow> string" where
  "snakeToCamel (u # c # rest) =
     (if u = CHR ''_'' \<and> is_lower c then toUpperCase_char c # snakeToCamel rest
      else u # snakeToCamel (c # rest))"
| "snakeToCamel [u] = [u]"
| "snakeToCamel [] = []"

text \<open>\<open>camelToSnake\<close>: every upper-case letter is replaced by an underscore and its lower case.\<close>

fun camelToSnake :: "string \<Rightarrow> string" where
  "camelToSnake [] = []"
| "camelToSnake (c # rest) =
     (if is_upper c then CHR ''_'' # toLowerCase_char c # camelToSnake rest
      else c # camelToSnake rest)"

text \<open>
  The schema vocabulary: every field name declared in an interface of the entity types
  (\<open>types/entities.ts\<close>), in alphabetical order.
\<close>

definition schema_keys :: "string list" where
  "schema_keys = [
    ''acceptsMarketing'', ''acceptsMarketingUpdatedAt'', ''active'', ''address'', ''address1'',
    ''address2'', ''addresses'', ''adminGraphqlApiId'', ''allocationLimit'',
    ''allocationMethod'', ''alt'', ''amount'', ''amountSet'', ''apiVersion'',
    ''appliedDiscount'', ''assignedLocationId'', ''attachment'', ''attributionAppId'',
    ''authorization'', ''available'', ''availableAdjustment'', ''avsResultCode'', ''barcode'',
    ''billingAddress'', ''bodyHtml'', ''cancelReason'', ''cancelledAt'', ''checksum'', ''city'',
    ''closedAt'', ''code'', ''collectionId'', ''column'', ''company'', ''compareAtPrice'',
    ''completedAt'', ''condition'', ''confirmed'', ''contentType'', ''cost'', ''count'',
    ''country'', ''countryCode'', ''countryCodeOfOrigin'', ''countryHarmonizedSystemCodes'',
    ''countryName'', ''createdAt'', ''createdAtMax'', ''createdAtMin'', ''creditCardBin'',
    ''creditCardCompany'', ''creditCardNumber'', ''currency'', ''currencyCode'', ''custom'',
    ''customAttributes'', ''customer'', ''customerId'', ''customerSelection'',
    ''cvvResultCode'', ''default'', ''defaultAddress'', ''deliveryMethod'', ''description'',
    ''destination'', ''discountApplications'', ''discountCodes'', ''discountedPrice'',
    ''disjunctive'', ''domain'', ''email'', ''endsAt'', ''endsAtMax'', ''endsAtMin'',
    ''entitledCollectionIds'', ''entitledCountryIds'', ''entitledProductIds'',
    ''entitledQuantity'', ''entitledVariantIds'', ''errorCode'', ''fields'',
    ''financialStatus'', ''firstName'', ''format'', ''fulfillAt'', ''fulfillBy'',
    ''fulfillableQuantity'', ''fulfillmentHolds'', ''fulfillmentOrderId'',
    ''fulfillmentOrderLineItems'', ''fulfillmentService'', ''fulfillmentStatus'',
    ''fulfillments'', ''fullRefund'', ''gateway'', ''giftCard'', ''grams'',
    ''greaterThanOrEqualTo'', ''handle'', ''harmonizedSystemCode'', ''hasMore'', ''height'',
    ''ianaTimezone'', ''id'', ''ids'', ''image'', ''imageId'', ''images'',
    ''internationalDuties'', ''inventoryBehaviour'', ''inventoryItemId'', ''inventoryItemIds'',
    ''inventoryManagement'', ''inventoryPolicy'', ''inventoryQuantity'', ''invoiceSentAt'',
    ''invoiceUrl'', ''items'', ''key'', ''kind'', ''lastName'', ''legacy'', ''limit'',
    ''lineItem'', ''lineItemId'', ''lineItems'', ''lineItemsByFulfillmentOrder'',
    ''localizedCountryName'', ''localizedProvinceName'', ''locationId'', ''locationIds'',
    ''marketingOptInLevel'', ''message'', ''metafieldNamespaces'', ''methodType'',
    ''moneyFormat'', ''myshopifyDomain'', ''name'', ''namespace'', ''nextCursor'',
    ''nextPageInfo'', ''note'', ''noteAttributes'', ''notify'', ''notifyCustomer'', ''number'',
    ''numbers'', ''oldInventoryQuantity'', ''oncePerCustomer'', ''option1'', ''option2'',
    ''option3'', ''options'', ''order'', ''orderAdjustments'', ''orderId'', ''orderNumber'',
    ''ordersCount'', ''originAddress'', ''ownerId'', ''ownerResource'', ''parentId'',
    ''paymentDetails'', ''phone'', ''planDisplayName'', ''planName'', ''position'',
    ''prerequisiteAmount'', ''prerequisiteCollectionIds'', ''prerequisiteCustomerIds'',
    ''prerequisiteProductIds'', ''prerequisiteQuantity'', ''prerequisiteQuantityRange'',
    ''prerequisiteSavedSearchIds'', ''prerequisiteShippingPriceRange'',
    ''prerequisiteSubtotalRange'', ''prerequisiteToEntitlementPurchase'',
    ''prerequisiteToEntitlementQuantityRatio'', ''prerequisiteVariantIds'',
    ''presentmentMoney'', ''previewable'', ''price'', ''priceRuleId'',
    ''privateMetafieldNamespaces'', ''processedAt'', ''processedAtMax'', ''processedAtMin'',
    ''processing'', ''productId'', ''productType'', ''properties'', ''province'',
    ''provinceCode'', ''provinceCodeOfOrigin'', ''publicUrl'', ''published'', ''publishedAt'',
    ''publishedAtMax'', ''publishedAtMin'', ''publishedScope'', ''publishedStatus'',
    ''quantity'', ''query'', ''rate'', ''reason'', ''reasonNotes'', ''receipt'', ''refundId'',
    ''refundLineItems'', ''refunds'', ''relation'', ''requestStatus'', ''requiresShipping'',
    ''restock'', ''restockType'', ''role'', ''rules'', ''sendEmailInvite'',
    ''sendEmailWelcome'', ''sendFulfillmentReceipt'', ''sendReceipt'', ''service'',
    ''shipmentStatus'', ''shipping'', ''shippingAddress'', ''shippingLine'', ''shippingLines'',
    ''shopId'', ''shopMoney'', ''shopOwner'', ''sinceId'', ''size'', ''sku'', ''sortOrder'',
    ''sortValue'', ''source'', ''sourceKey'', ''sourceName'', ''src'', ''startsAt'',
    ''startsAtMax'', ''startsAtMin'', ''state'', ''status'', ''subtotal'', ''subtotalPrice'',
    ''subtotalSet'', ''supportedActions'', ''tags'', ''targetSelection'', ''targetType'',
    ''taxAmount'', ''taxAmountSet'', ''taxCode'', ''taxExempt'', ''taxExemptions'',
    ''taxLines'', ''taxable'', ''taxesIncluded'', ''templateSuffix'', ''test'', ''themeId'',
    ''themeStoreId'', ''timesUsed'', ''timezone'', ''title'', ''token'', ''topic'', ''total'',
    ''totalDiscount'', ''totalDiscounts'', ''totalPrice'', ''totalSpent'', ''totalTax'',
    ''totalTaxSet'', ''totalWeight'', ''tracked'', ''trackingCompany'', ''trackingInfo'',
    ''trackingNumber'', ''trackingNumbers'', ''trackingUrl'', ''trackingUrls'',
    ''transactions'', ''type'', ''updatedAt'', ''updatedAtMax'', ''updatedAtMin'', ''url'',
    ''urls'', ''usageCount'', ''usageLimit'', ''useCustomerDefaultAddress'', ''userId'',
    ''value'', ''valueType'', ''values'', ''variantId'', ''variantIds'', ''variantTitle'',
    ''variants'', ''vendor'', ''verifiedEmail'', ''weight'', ''weightUnit'', ''width'', ''zip''
   ]"

section \<open>Values and the recursive key transformation\<close>

text \<open>
  The data that flows through the client is what \<open>JSON.parse\<close> produces and what the tools
  pass in: \<open>null\<close>, \<open>undefined\<close>, booleans, numbers, strings, arrays and plain objects.
  A number is modelled by its integer value. The model is exact for the safe integers, of
  magnitude below \<open>2^53\<close>, where identifiers, counts, limits and status codes lie; fractional
  and non-finite doubles are outside the model. An object is the list of its own enumerable
  properties in the order \<open>Object.entries\<close> yields them. Property keys that are integer
  indices, which the language enumerates before all other keys, do not occur among the keys
  of this program and are not given a special order here.
\<close>

datatype json = JNull | JUndefined | JBool bool | JNum int | JStr string
  | JArr "json list" | JObj "(string \<times> json) list"

text \<open>
  \<open>result[key] = value\<close> on an object that was created as \<open>{}\<close>. An existing own property
  keeps its place and takes the new value, and a new property is added after the existing
  ones (\<open>obj_put\<close>). The key \<open>__proto__\<close> is the exception: the assignment reaches the setter
  that every plain object inherits, and no own property is created. What the setter does to
  the prototype is not seen by \<open>Object.entries\<close> or \<open>JSON.stringify\<close> and is not modelled.
\<close>

fun obj_put :: "string \<Rightarrow> 'v \<Rightarrow> (string \<times> 'v) list \<Rightarrow> (string \<times> 'v) list" where
  "obj_put k v [] = [(k, v)]"
| "obj_put k v ((k', v') # ps) = (if k' = k then (k, v) # ps else (k', v') # obj_put k v ps)"

definition obj_set :: "string \<Rightarrow> 'v \<Rightarrow> (string \<times> 'v) list \<Rightarrow> (string \<times> 'v) list" where
  "obj_set k v ps = (if k = ''__proto__'' then ps else obj_put k v ps)"

text \<open>The loop \<open>for (const [key, value] of entries) result[key] = value\<close> from the empty object.\<close>

definition assign_entries :: "(string \<times> 'v) list \<Rightarrow> (string \<times> 'v) list" where
  "assign_entries es = foldl (\<lambda>acc (k, v). obj_set k v acc) [] es"

text \<open>
  \<open>transformKeys\<close>: \<open>null\<close> and \<open>undefined\<close> are returned as they are, an array is mapped
  element by element, an object is rebuilt by assigning the transformed value under the
  transformed key for each entry in turn, and every other value is returned as it is.
\<close>

primrec transformKeys :: "(string \<Rightarrow> string) \<Rightarrow> json \<Rightarrow> json" where
  "transformKeys f JNull = JNull"
| "transformKeys f JUndefined = JUndefined"
| "transformKeys f (JBool b) = JBool b"
| "transformKeys f (JNum n) = JNum n"
| "transformKeys f (JStr s) = JStr s"
| "transformKeys f (JArr xs) = JArr (map (transformKeys f) xs)"
| "transformKeys f (JObj kvs) = JObj (assign_entries (map (map_prod f (transformKeys f)) kvs))"

definition toCamelCase :: "json \<Rightarrow> json" where
  "toCamelCase obj = transformKeys snakeToCamel obj"

definition toSnakeCase :: "json \<Rightarrow> json" where
  "toSnakeCase obj = transformKeys camelToSnake obj"

text \<open>
  The transformation as the specification words it: the same structure, with every key of
  every mapping replaced by its image and everything else left alone.
\<close>

primrec rewrite_keys :: "(string \<Rightarrow> string) \<Rightarrow> json \<Rightarrow> json" where
  "rewrite_keys f JNull = JNull"
| "rewrite_keys f JUndefined = JUndefined"
| "rewrite_keys f (JBool b) = JBool b"
| "rewrite_keys f (JNum n) = JNum n"
| "rewrite_keys f (JStr s) = JStr s"
| "rewrite_keys f (JArr xs) = JArr (map (rewrite_keys f) xs)"
| "rewrite_keys f (JObj kvs) = JObj (map (map_prod f (rewrite_keys f)) kvs)"

text \<open>
  \<open>keys_apart f v\<close>: in every mapping inside \<open>v\<close>, no two keys have the same image under \<open>f\<close>,
  and no key has the image \<open>__proto__\<close>.
\<close>

primrec keys_apart :: "(string \<Rightarrow> string) \<Rightarrow> json \<Rightarrow> bool" where
  "keys_apart f JNull = True"
| "keys_apart f JUndefined = True"
| "keys_apart f (JBool b) = True"
| "keys_apart f (JNum n) = True"
| "keys_apart f (JStr s) = True"
| "keys_apart f (JArr xs) = list_all (\<lambda>b. b) (map (keys_apart f) xs)"
| "keys_apart f (JObj kvs) =
     (distinct (map (\<lambda>kv. f (fst kv)) kvs)
      \<and> ''__proto__'' \<notin> set (map (\<lambda>kv. f (fst kv)) kvs)
      \<and> list_all snd (map (map_prod f (keys_apart f)) kvs))"

text \<open>
  Whether a string has an underscore that is directly followed by a lower-case letter. No
  result of \<open>snakeToCamel\<close> has one, and \<open>__proto__\<close> has.
\<close>

fun has_snake_pair :: "string \<Rightarrow> bool" where
  "has_snake_pair (u # c # rest) = ((u = CHR ''_'' \<and> is_lower c) \<or> has_snake_pair (c # rest))"
| "has_snake_pair [u] = False"
| "has_snake_pair [] = False"

section \<open>Numbers and strings of the host language\<close>

text \<open>
  Decimal rendering of numbers, as string interpolation and \<open>String(n)\<close> produce it for
  integers in the safe range, and \<open>parseInt(s, 10)\<close>: leading white space is skipped, one
  sign is accepted, the longest run of decimal digits is read, and the result is \<open>NaN\<close> when
  there is no digit.
\<close>

definition is_digit :: "char \<Rightarrow> bool" where
  "is_digit c = (48 \<le> (of_char c :: nat) \<and> (of_char c :: nat) \<le> 57)"

definition digit_value :: "char \<Rightarrow> nat" where
  "digit_value c = (of_char c :: nat) - 48"

definition digit_char :: "nat \<Rightarrow> char" where
  "digit_char d = char_of (48 + d)"

function showNat :: "nat \<Rightarrow> string" where
  "showNat n = (if n < 10 then [digit_char n] else showNat (n div 10) @ [digit_char (n mod 10)])"
  by pat_completeness auto
termination
  by (relation "measure (\<lambda>n. n)") auto

declare showNat.simps [simp del]

definition showInt :: "int \<Rightarrow> string" where
  "showInt i = (if i < 0 then CHR ''-'' # showNat (nat (- i)) else showNat (nat i))"

text \<open>White space of the language within the 8-bit range: TAB, LF, VT, FF, CR, SP, NBSP.\<close>

definition is_js_space :: "char \<Rightarrow> bool" where
  "is_js_space c = ((of_char c :: nat) \<in> {9, 10, 11, 12, 13, 32, 160})"

text \<open>
  A number as \<open>parseInt\<close> returns it. \<open>Num n\<close> is the double whose value is the integer \<open>n\<close>
  (negative zero is not told apart from zero); it is used up to the magnitude \<open>2^53\<close>, up to
  which every integer is a double. \<open>Beyond\<close> stands for the double to which an integer of
  larger magnitude is rounded, which is not modelled further: the digits \<open>9007199254740993\<close>
  give the double \<open>9007199254740992\<close>, not the integer they denote. \<open>NaN\<close> is not-a-number.
\<close>

datatype js_number = NaN | Num int | Beyond

definition decimal_value :: "string \<Rightarrow> int" where
  "decimal_value ds = foldl (\<lambda>a c. 10 * a + int (digit_value c)) 0 ds"

definition parseInt10 :: "string \<Rightarrow> js_number" where
  "parseInt10 s =
     (let t = dropWhile is_js_space s;
          neg = (t \<noteq> [] \<and> hd t = CHR ''-'');
          u = (if t \<noteq> [] \<and> (hd t = CHR ''-'' \<or> hd t = CHR ''+'') then tl t else t);
          ds = takeWhile is_digit u
      in if ds = [] then NaN
         else if decimal_value ds \<le> 9007199254740992
         then Num ((if neg then - 1 else 1) * decimal_value ds)
         else Beyond)"

text \<open>\<open>Array.prototype.join\<close> on strings.\<close>

fun join :: "string \<Rightarrow> string list \<Rightarrow> string" where
  "join sep [] = []"
| "join sep [x] = x"
| "join sep (x # y # zs) = x @ sep @ join sep (y # zs)"

text \<open>
  \<open>String(value)\<close>, which is also what a template literal applies to an interpolated value.
  An array is rendered as its elements joined by commas, with \<open>null\<close> and \<open>undefined\<close>
  elements rendered as the empty string; a plain object is rendered as \<open>[object Object]\<close>.
\<close>

fun jsString :: "json \<Rightarrow> string" where
  "jsString JNull = ''null''"
| "jsString JUndefined = ''undefined''"
| "jsString (JBool b) = (if b then ''true'' else ''false'')"
| "jsString (JNum n) = showInt n"
| "jsString (JStr s) = s"
| "jsString (JArr xs) =
     join '','' (map (\<lambda>x. if x = JNull \<or> x = JUndefined then [] else jsString x) xs)"
| "jsString (JObj kvs) = ''[object Object]''"

text \<open>\<open>value.join(sep)\<close> on an array value.\<close>

definition array_join :: "string \<Rightarrow> json list \<Rightarrow> string" where
  "array_join sep xs =
     join sep (map (\<lambda>x. if x = JNull \<or> x = JUndefined then [] else jsString x) xs)"

text \<open>Truthiness, as \<open>if (v)\<close>, \<open>v ? a : b\<close> and \<open>v || d\<close> test it.\<close>

fun truthy :: "json \<Rightarrow> bool" where
  "truthy JNull = False"
| "truthy JUndefined = False"
| "truthy (JBool b) = b"
| "truthy (JNum n) = (n \<noteq> 0)"
| "truthy (JStr s) = (s \<noteq> [])"
| "truthy (JArr xs) = True"
| "truthy (JObj kvs) = True"

definition js_or :: "json \<Rightarrow> json \<Rightarrow> json" where
  "js_or a b = (if truthy a then a else b)"

text \<open>
  Strict equality \<open>a === b\<close> between a value read from a response and a value read from the
  caller's options. Arrays and objects are compared by identity, and two values from these
  two sources are never the same object.
\<close>

fun strict_equal :: "json \<Rightarrow> json \<Rightarrow> bool" where
  "strict_equal JNull JNull = True"
| "strict_equal JUndefined JUndefined = True"
| "strict_equal (JBool a) (JBool b) = (a = b)"
| "strict_equal (JNum a) (JNum b) = (a = b)"
| "strict_equal (JStr a) (JStr b) = (a = b)"
| "strict_equal a b = False"

section \<open>Serialisation to JSON text\<close>

text \<open>
  \<open>JSON.stringify(value)\<close> and \<open>JSON.stringify(value, null, 2)\<close>. A string is quoted with the
  two-character escapes for quote, backslash, backspace, tab, line feed, form feed and
  carriage return, and the six-character hexadecimal escape for the other control characters. \<open>undefined\<close> has no
  serialisation: as an array element it is written \<open>null\<close>, as a property value the property
  is left out. With a gap, every element and property starts on a line of its own, indented
  by one more gap than its container.
\<close>

definition hex_digit :: "nat \<Rightarrow> char" where
  "hex_digit d = (if d < 10 then char_of (48 + d) else char_of (87 + d))"

definition escape_char :: "char \<Rightarrow> string" where
  "escape_char c =
     (let n = (of_char c :: nat) in
      if n = 8 then [CHR 0x5C, CHR ''b'']
      else if n = 9 then [CHR 0x5C, CHR ''t'']
      else if n = 10 then [CHR 0x5C, CHR ''n'']
      else if n = 12 then [CHR 0x5C, CHR ''f'']
      else if n = 13 then [CHR 0x5C, CHR ''r'']
      else if n = 34 then [CHR 0x5C, CHR 0x22]
      else if n = 92 then [CHR 0x5C, CHR 0x5C]
      else if n < 32 then
        [CHR 0x5C, CHR ''u'', CHR ''0'', CHR ''0'', hex_digit (n div 16), hex_digit (n mod 16)]
      else [c])"

definition quoteJSON :: "string \<Rightarrow> string" where
  "quoteJSON s = CHR 0x22 # concat (map escape_char s) @ [CHR 0x22]"

fun serializeJSON :: "string \<Rightarrow> string \<Rightarrow> json \<Rightarrow> string option" where
  "serializeJSON gap indent JNull = Some ''null''"
| "serializeJSON gap indent JUndefined = None"
| "serializeJSON gap indent (JBool b) = Some (if b then ''true'' else ''false'')"
| "serializeJSON gap indent (JNum n) = Some (showInt n)"
| "serializeJSON gap indent (JStr s) = Some (quoteJSON s)"
| "serializeJSON gap indent (JArr xs) =
     (let parts = map (\<lambda>x. case serializeJSON gap (indent @ gap) x of
                              None \<Rightarrow> ''null'' | Some s \<Rightarrow> s) xs
      in Some (if parts = [] then ''[]''
               else if gap = [] then ''['' @ join '','' parts @ '']''
               else ''['' @ [CHR 0x0A] @ indent @ gap
                    @ join ('','' @ [CHR 0x0A] @ indent @ gap) parts
                    @ [CHR 0x0A] @ indent @ '']''))"
| "serializeJSON gap indent (JObj kvs) =
     (let parts = concat (map (\<lambda>kv. case serializeJSON gap (indent @ gap) (snd kv) of
                                       None \<Rightarrow> []
                                     | Some s \<Rightarrow>
                                         [quoteJSON (fst kv) @ (if gap = [] then '':'' else '': '') @ s])
                              kvs)
      in Some (if parts = [] then ''{}''
               else if gap = [] then ''{'' @ join '','' parts @ ''}''
               else ''{'' @ [CHR 0x0A] @ indent @ gap
                    @ join ('','' @ [CHR 0x0A] @ indent @ gap) parts
                    @ [CHR 0x0A] @ indent @ ''}''))"

definition JSON_stringify :: "json \<Rightarrow> string option" where
  "JSON_stringify v = serializeJSON [] [] v"

definition JSON_stringify_2 :: "json \<Rightarrow> string option" where
  "JSON_stringify_2 v = serializeJSON ''  '' [] v"

section \<open>Errors and property access\<close>

text \<open>
  The typed errors the client raises, each with the arguments its constructor is given:
  \<open>RateLimitError(message, retryAfter)\<close>, \<open>AuthenticationError(message)\<close> and
  \<open>CrmApiError(message, status)\<close>. The retry hint is a number of the host language.
  \<open>TypeError\<close> and \<open>SyntaxError\<close> are the run-time errors of
  reading a property of \<open>null\<close> or \<open>undefined\<close> and of parsing text that is no JSON.
\<close>

datatype error =
    RateLimitError string js_number
  | AuthenticationError string
  | CrmApiError string int
  | TypeError
  | SyntaxError

text \<open>
  The own enumerable properties of a value, as \<open>Object.entries\<close> lists them: the entries of
  an object, the indexed elements of an array, the indexed characters of a string, and
  nothing for numbers and booleans.
\<close>

fun own_entries :: "json \<Rightarrow> (string \<times> json) list" where
  "own_entries (JObj kvs) = kvs"
| "own_entries (JArr xs) = zip (map showNat [0..<length xs]) xs"
| "own_entries (JStr s) = zip (map showNat [0..<length s]) (map (\<lambda>c. JStr [c]) s)"
| "own_entries v = []"

fun length_of :: "json \<Rightarrow> json" where
  "length_of (JArr xs) = JNum (int (length xs))"
| "length_of (JStr s) = JNum (int (length s))"
| "length_of v = JUndefined"

text \<open>
  \<open>v.k\<close> and \<open>v[k]\<close>: a \<open>TypeError\<close> on \<open>null\<close> and \<open>undefined\<close>, the own property when there is
  one, the \<open>length\<close> of an array or string, and \<open>undefined\<close> otherwise. Methods inherited
  from the built-in prototypes are not data and are outside the model.
\<close>

definition member :: "json \<Rightarrow> string \<Rightarrow> error + json" where
  "member v k =
     (if v = JNull \<or> v = JUndefined then Inl TypeError
      else case map_of (own_entries v) k of
             Some x \<Rightarrow> Inr x
           | None \<Rightarrow> Inr (if k = ''length'' then length_of v else JUndefined))"

section \<open>The request executor\<close>

text \<open>
  What \<open>request\<close> reads of the HTTP response it awaits: the status code, the value of
  \<open>response.headers.get('Retry-After')\<close> (\<open>None\<close> for \<open>null\<close>), and the body, which is \<open>Some j\<close>
  when the body text parses as the JSON value \<open>j\<close> and \<open>None\<close> when parsing it throws.
\<close>

record response =
  status :: int
  retry_after :: "string option"
  body :: "json option"

definition ok :: "response \<Rightarrow> bool" where
  "ok r = (200 \<le> status r \<and> status r \<le> 299)"

definition default_message :: "response \<Rightarrow> string" where
  "default_message r = ''Shopify API error: '' @ showInt (status r)"

text \<open>
  The message of the generic error: the default, replaced inside a \<open>try\<close> by the \<open>errors\<close>
  field of the parsed body when that field is truthy, as it is when it is a string and
  serialised otherwise. Every failure inside the \<open>try\<close> keeps the default. A truthy value
  always has a serialisation, so the last \<open>None\<close> branch is never taken.
\<close>

definition error_message :: "response \<Rightarrow> string" where
  "error_message r =
     (case body r of
        None \<Rightarrow> default_message r
      | Some errorJson \<Rightarrow>
          (case member errorJson ''errors'' of
             Inl e \<Rightarrow> default_message r
           | Inr errors \<Rightarrow>
               if truthy errors then
                 (case errors of
                    JStr s \<Rightarrow> s
                  | _ \<Rightarrow> (case JSON_stringify errors of
                            Some s \<Rightarrow> s
                          | None \<Rightarrow> default_message r))
               else default_message r))"

text \<open>The status checks of \<open>request\<close>, in the order of the source.\<close>

definition request :: "response \<Rightarrow> error + json" where
  "request r =
     (if status r = 429 then
        Inl (RateLimitError ''Rate limit exceeded''
               (case retry_after r of
                  None \<Rightarrow> Num 60
                | Some h \<Rightarrow> if h \<noteq> [] then parseInt10 h else Num 60))
      else if status r = 401 then Inl (AuthenticationError ''Invalid access token'')
      else if status r = 403 then
        Inl (AuthenticationError ''Access denied. Check your access scopes.'')
      else if status r = 404 then Inl (CrmApiError ''Resource not found'' 404)
      else if \<not> ok r then Inl (CrmApiError (error_message r) (status r))
      else if status r = 204 then Inr JUndefined
      else (case body r of None \<Rightarrow> Inl SyntaxError | Some data \<Rightarrow> Inr (toCamelCase data)))"

section \<open>The query builder\<close>

text \<open>
  \<open>URLSearchParams\<close> is the list of its name-value pairs. \<open>set(name, value)\<close> gives the first
  pair of that name the new value and removes the other pairs of that name, or appends a new
  pair when there is none.
\<close>

fun usp_set :: "string \<Rightarrow> string \<Rightarrow> (string \<times> string) list \<Rightarrow> (string \<times> string) list" where
  "usp_set k v [] = [(k, v)]"
| "usp_set k v ((k', v') # ps) =
     (if k' = k then (k, v) # filter (\<lambda>p. fst p \<noteq> k) ps else (k', v') # usp_set k v ps)"

text \<open>One round of the loop over the entries of the snake-cased options.\<close>

definition query_step :: "(string \<times> string) list \<Rightarrow> string \<times> json \<Rightarrow> (string \<times> string) list" where
  "query_step queryParams kv =
     (case kv of (key, value) \<Rightarrow>
        if value \<noteq> JUndefined \<and> value \<noteq> JNull then
          (case value of
             JArr xs \<Rightarrow> usp_set key (array_join '','' xs) queryParams
           | _ \<Rightarrow> usp_set key (jsString value) queryParams)
        else queryParams)"

text \<open>
  The parameters that \<open>buildQueryParams\<close> collects before it serialises them.
  \<open>Object.entries\<close> throws on \<open>null\<close> and \<open>undefined\<close>.
\<close>

definition query_params :: "json \<Rightarrow> error + (string \<times> string) list" where
  "query_params params =
     (let snakeParams = toSnakeCase params
      in if snakeParams = JNull \<or> snakeParams = JUndefined then Inl TypeError
         else Inr (foldl query_step [] (own_entries snakeParams)))"

text \<open>
  \<open>queryParams.toString()\<close>, the form-urlencoded serialisation: letters, digits and
  \<open>*-._\<close> stay, a space becomes \<open>+\<close>, every other character is written as the percent-encoded
  bytes of its UTF-8 form (two bytes for the characters from 128 to 255).
\<close>

definition upper_hex_digit :: "nat \<Rightarrow> char" where
  "upper_hex_digit d = (if d < 10 then char_of (48 + d) else char_of (55 + d))"

definition percent_byte :: "nat \<Rightarrow> string" where
  "percent_byte n = [CHR ''%'', upper_hex_digit (n div 16), upper_hex_digit (n mod 16)]"

definition form_encode_char :: "char \<Rightarrow> string" where
  "form_encode_char c =
     (let n = (of_char c :: nat) in
      if n = 32 then ''+''
      else if is_digit c \<or> is_upper c \<or> is_lower c \<or> n \<in> {42, 45, 46, 95} then [c]
      else if n < 128 then percent_byte n
      else percent_byte (192 + n div 64) @ percent_byte (128 + n mod 64))"

definition form_encode :: "string \<Rightarrow> string" where
  "form_encode s = concat (map form_encode_char s)"

definition usp_toString :: "(string \<times> string) list \<Rightarrow> string" where
  "usp_toString ps = join ''&'' (map (\<lambda>p. form_encode (fst p) @ ''='' @ form_encode (snd p)) ps)"

definition buildQueryParams :: "json \<Rightarrow> error + string" where
  "buildQueryParams params =
     (case query_params params of Inl e \<Rightarrow> Inl e | Inr ps \<Rightarrow> Inr (usp_toString ps))"

text \<open>
  The rules of the query builder in the words of the specification: a parameter value is
  the comma-joined array or the stringified value, and \<open>wire_named\<close> is the option mapping
  under its wire-cased names (where two names have the same wire form, the later value
  stands at the earlier place, and a name whose wire form is \<open>__proto__\<close> names no property).
\<close>

definition param_value :: "json \<Rightarrow> string" where
  "param_value v = (case v of JArr xs \<Rightarrow> array_join '','' xs | _ \<Rightarrow> jsString v)"

definition wire_named :: "(string \<times> json) list \<Rightarrow> (string \<times> json) list" where
  "wire_named kvs = assign_entries (map (\<lambda>kv. (camelToSnake (fst kv), snd kv)) kvs)"

text \<open>Whether every number inside a value is a safe integer.\<close>

primrec exact_numbers :: "json \<Rightarrow> bool" where
  "exact_numbers JNull = True"
| "exact_numbers JUndefined = True"
| "exact_numbers (JBool b) = True"
| "exact_numbers (JNum n) = (\<bar>n\<bar> \<le> 9007199254740991)"
| "exact_numbers (JStr s) = True"
| "exact_numbers (JArr xs) = list_all (\<lambda>b. b) (map exact_numbers xs)"
| "exact_numbers (JObj kvs) = list_all snd (map (map_prod id exact_numbers) kvs)"

section \<open>Resource operations\<close>

text \<open>
  The list operations that return a paginated envelope, each with the property of the
  camel-cased response body that holds its items.
\<close>

datatype list_op =
    ListProducts | ListProductVariants | ListProductImages | ListCustomCollections
  | ListSmartCollections | ListCollectionProducts | ListCollects | ListOrders
  | ListCustomers | SearchCustomers | GetCustomerOrders | ListLocations
  | ListFulfillments | ListDraftOrders | ListPriceRules | ListWebhooks
  | ListMetafields | ListShopMetafields

fun list_field :: "list_op \<Rightarrow> string" where
  "list_field ListProducts = ''products''"
| "list_field ListProductVariants = ''variants''"
| "list_field ListProductImages = ''images''"
| "list_field ListCustomCollections = ''customCollections''"
| "list_field ListSmartCollections = ''smartCollections''"
| "list_field ListCollectionProducts = ''products''"
| "list_field ListCollects = ''collects''"
| "list_field ListOrders = ''orders''"
| "list_field ListCustomers = ''customers''"
| "list_field SearchCustomers = ''customers''"
| "list_field GetCustomerOrders = ''orders''"
| "list_field ListLocations = ''locations''"
| "list_field ListFulfillments = ''fulfillments''"
| "list_field ListDraftOrders = ''draftOrders''"
| "list_field ListPriceRules = ''priceRules''"
| "list_field ListWebhooks = ''webhooks''"
| "list_field ListMetafields = ''metafields''"
| "list_field ListShopMetafields = ''metafields''"

text \<open>
  The query of a list operation: \<open>params ? this.buildQueryParams(params) : ''\<close>, except in
  \<open>searchCustomers\<close>, which always builds it. Omitted options are \<open>undefined\<close>.
\<close>

definition list_query :: "list_op \<Rightarrow> json \<Rightarrow> error + string" where
  "list_query op params =
     (if op = SearchCustomers \<or> truthy params then buildQueryParams params else Inr [])"

text \<open>\<open>params?.limit\<close>.\<close>

definition optional_limit :: "json \<Rightarrow> json" where
  "optional_limit params =
     (case member params ''limit'' of Inl e \<Rightarrow> JUndefined | Inr v \<Rightarrow> v)"

text \<open>
  The requested limit in the words of the specification: the limit that is supplied, and 50
  when none is.
\<close>

definition requested_limit :: "json \<Rightarrow> json" where
  "requested_limit params =
     (case optional_limit params of JNum n \<Rightarrow> JNum n | _ \<Rightarrow> JNum 50)"

text \<open>
  The envelope literal
  \<open>{ items: data.f, count: data.f.length, hasMore: data.f.length === (params?.limit || 50) }\<close>.
\<close>

definition paginate :: "string \<Rightarrow> json \<Rightarrow> json \<Rightarrow> error + json" where
  "paginate f params data =
     (case member data f of
        Inl e \<Rightarrow> Inl e
      | Inr items \<Rightarrow>
          (case member items ''length'' of
             Inl e \<Rightarrow> Inl e
           | Inr len \<Rightarrow>
               Inr (JObj [(''items'', items), (''count'', len),
                          (''hasMore'',
                           JBool (strict_equal len (js_or (optional_limit params) (JNum 50))))])))"

text \<open>A list operation: build the query, await the request, wrap the items.\<close>

definition list_operation :: "list_op \<Rightarrow> json \<Rightarrow> response \<Rightarrow> error + json" where
  "list_operation op params r =
     (case list_query op params of
        Inl e \<Rightarrow> Inl e
      | Inr query \<Rightarrow>
          (case request r of
             Inl e \<Rightarrow> Inl e
           | Inr data \<Rightarrow> paginate (list_field op) params data))"

text \<open>
  The create and update operations, each with the key under which it wraps its input in the
  request body.
\<close>

datatype write_op =
    CreateProduct | UpdateProduct | CreateVariant | UpdateVariant
  | CreateProductImage | UpdateProductImage
  | CreateCustomCollection | UpdateCustomCollection
  | CreateSmartCollection | UpdateSmartCollection | CreateCollect
  | CreateOrder | UpdateOrder | CreateCustomer | UpdateCustomer | UpdateInventoryItem
  | CreateFulfillment | UpdateFulfillmentTracking | CreateDraftOrder | UpdateDraftOrder
  | CreateTransaction | CreateRefund | CalculateRefund | CreatePriceRule | UpdatePriceRule
  | CreateDiscountCode | CreateWebhook | UpdateWebhook | CreateTheme | UpdateTheme
  | CreateOrUpdateAsset | CreateMetafield | UpdateMetafield | CreateShopMetafield

fun wrapper_key :: "write_op \<Rightarrow> string" where
  "wrapper_key CreateProduct = ''product''"
| "wrapper_key UpdateProduct = ''product''"
| "wrapper_key CreateVariant = ''variant''"
| "wrapper_key UpdateVariant = ''variant''"
| "wrapper_key CreateProductImage = ''image''"
| "wrapper_key UpdateProductImage = ''image''"
| "wrapper_key CreateCustomCollection = ''customCollection''"
| "wrapper_key UpdateCustomCollection = ''customCollection''"
| "wrapper_key CreateSmartCollection = ''smartCollection''"
| "wrapper_key UpdateSmartCollection = ''smartCollection''"
| "wrapper_key CreateCollect = ''collect''"
| "wrapper_key CreateOrder = ''order''"
| "wrapper_key UpdateOrder = ''order''"
| "wrapper_key CreateCustomer = ''customer''"
| "wrapper_key UpdateCustomer = ''customer''"
| "wrapper_key UpdateInventoryItem = ''inventoryItem''"
| "wrapper_key CreateFulfillment = ''fulfillment''"
| "wrapper_key UpdateFulfillmentTracking = ''fulfillment''"
| "wrapper_key CreateDraftOrder = ''draftOrder''"
| "wrapper_key UpdateDraftOrder = ''draftOrder''"
| "wrapper_key CreateTransaction = ''transaction''"
| "wrapper_key CreateRefund = ''refund''"
| "wrapper_key CalculateRefund = ''refund''"
| "wrapper_key CreatePriceRule = ''priceRule''"
| "wrapper_key UpdatePriceRule = ''priceRule''"
| "wrapper_key CreateDiscountCode = ''discountCode''"
| "wrapper_key CreateWebhook = ''webhook''"
| "wrapper_key UpdateWebhook = ''webhook''"
| "wrapper_key CreateTheme = ''theme''"
| "wrapper_key UpdateTheme = ''theme''"
| "wrapper_key CreateOrUpdateAsset = ''asset''"
| "wrapper_key CreateMetafield = ''metafield''"
| "wrapper_key UpdateMetafield = ''metafield''"
| "wrapper_key CreateShopMetafield = ''metafield''"

text \<open>The value that is serialised, \<open>{ key: toSnakeCase(input) }\<close>, and the request body.\<close>

definition write_payload :: "write_op \<Rightarrow> json \<Rightarrow> json" where
  "write_payload op input = JObj [(wrapper_key op, toSnakeCase input)]"

definition write_body :: "write_op \<Rightarrow> json \<Rightarrow> string option" where
  "write_body op input = JSON_stringify (write_payload op input)"

text \<open>
  The body as the specification words it: the input is wrapped under the key first, and the
  whole is converted to wire casing and serialised.
\<close>

definition wire_body :: "write_op \<Rightarrow> json \<Rightarrow> string option" where
  "wire_body op input = JSON_stringify (toSnakeCase (JObj [(wrapper_key op, input)]))"

text \<open>All keys of the mappings inside a value, and whether a key is in wire casing.\<close>

primrec all_keys :: "json \<Rightarrow> string list" where
  "all_keys JNull = []"
| "all_keys JUndefined = []"
| "all_keys (JBool b) = []"
| "all_keys (JNum n) = []"
| "all_keys (JStr s) = []"
| "all_keys (JArr xs) = concat (map all_keys xs)"
| "all_keys (JObj kvs) = concat (map (\<lambda>kv. fst kv # snd kv) (map (map_prod id all_keys) kvs))"

definition wire_cased :: "string \<Rightarrow> bool" where
  "wire_cased k = (\<not> list_ex is_upper k)"

section \<open>Rendering results\<close>

text \<open>
  String helpers of the formatter. \<open>capitalize\<close> upper-cases the first character;
  \<open>entityType.replace(/s$/, '')\<close> drops one final \<open>s\<close>; \<open>formatKey\<close> puts a space before every
  upper-case letter, upper-cases the first character unless it is a line terminator, and
  trims white space at both ends. Entity tags and keys are ASCII, and the case mapping is
  the one on ASCII letters.
\<close>

definition capitalize :: "string \<Rightarrow> string" where
  "capitalize str = (case str of [] \<Rightarrow> [] | c # cs \<Rightarrow> toUpperCase_char c # cs)"

definition strip_final_s :: "string \<Rightarrow> string" where
  "strip_final_s str = (if str \<noteq> [] \<and> last str = CHR ''s'' then butlast str else str)"

definition trim :: "string \<Rightarrow> string" where
  "trim str = rev (dropWhile is_js_space (rev (dropWhile is_js_space str)))"

definition upper_first :: "string \<Rightarrow> string" where
  "upper_first str =
     (case str of
        [] \<Rightarrow> []
      | c # cs \<Rightarrow> if (of_char c :: nat) \<in> {10, 13} then str else toUpperCase_char c # cs)"

definition formatKey :: "string \<Rightarrow> string" where
  "formatKey key =
     trim (upper_first (concat (map (\<lambda>c. if is_upper c then [CHR '' '', c] else [c]) key)))"

text \<open>
  Reading a property of a value that is known not to be \<open>null\<close> or \<open>undefined\<close>, the optional
  chain \<open>v?.length\<close>, and the operator \<open>??\<close>.
\<close>

definition field :: "json \<Rightarrow> string \<Rightarrow> json" where
  "field v k = (case member v k of Inl e \<Rightarrow> JUndefined | Inr x \<Rightarrow> x)"

definition optional_length :: "json \<Rightarrow> json" where
  "optional_length v = (if v = JNull \<or> v = JUndefined then JUndefined else field v ''length'')"

definition nullish_or :: "json \<Rightarrow> json \<Rightarrow> json" where
  "nullish_or a b = (if a = JNull \<or> a = JUndefined then b else a)"

text \<open>
  A table is a header line, a separator line and one row per item, joined by line feeds.
  A row reads properties of its item, which throws a \<open>TypeError\<close> when the item is \<open>null\<close> or
  \<open>undefined\<close>; the first error ends the rendering.
\<close>

fun collect :: "(error + 'a) list \<Rightarrow> error + 'a list" where
  "collect [] = Inr []"
| "collect (Inl e # rs) = Inl e"
| "collect (Inr x # rs) = (case collect rs of Inl e \<Rightarrow> Inl e | Inr xs \<Rightarrow> Inr (x # xs))"

definition cells :: "string list \<Rightarrow> string" where
  "cells cs = ''| '' @ join '' | '' cs @ '' |''"

definition row_of :: "(json \<Rightarrow> string list) \<Rightarrow> json \<Rightarrow> error + string" where
  "row_of f item =
     (if item = JNull \<or> item = JUndefined then Inl TypeError else Inr (cells (f item)))"

definition table :: "string list \<Rightarrow> (json \<Rightarrow> string list) \<Rightarrow> json list \<Rightarrow> error + string" where
  "table head f items =
     (case collect (map (row_of f) items) of
        Inl e \<Rightarrow> Inl e
      | Inr rows \<Rightarrow> Inr (join [CHR 0x0A] (head @ rows)))"

definition or_dash :: "json \<Rightarrow> string" where
  "or_dash v = jsString (js_or v (JStr ''-''))"

definition yes_no :: "json \<Rightarrow> string" where
  "yes_no v = (if truthy v then ''Yes'' else ''No'')"

text \<open>The customer column of the order and draft-order tables.\<close>

definition customerName :: "json \<Rightarrow> string" where
  "customerName owner =
     (let customer = field owner ''customer'' in
      if truthy customer then
        jsString (js_or (JStr (trim (jsString (js_or (field customer ''firstName'') (JStr []))
                                     @ '' ''
                                     @ jsString (js_or (field customer ''lastName'') (JStr [])))))
                        (field customer ''email''))
      else ''-'')"

definition formatProductsTable :: "json list \<Rightarrow> error + string" where
  "formatProductsTable products =
     table [''| ID | Title | Vendor | Status | Variants |'', ''|---|---|---|---|---|'']
       (\<lambda>product.
          [jsString (field product ''id''), jsString (field product ''title''),
           or_dash (field product ''vendor''), or_dash (field product ''status''),
           jsString (js_or (optional_length (field product ''variants'')) (JNum 0))])
       products"

definition formatOrdersTable :: "json list \<Rightarrow> error + string" where
  "formatOrdersTable orders =
     table [''| ID | Order # | Customer | Total | Status | Created |'', ''|---|---|---|---|---|---|'']
       (\<lambda>order.
          [jsString (field order ''id''),
           jsString (js_or (field order ''orderNumber'') (field order ''name'')),
           customerName order,
           jsString (js_or (field order ''currency'') (JStr ''$'')) @ '' ''
             @ jsString (js_or (field order ''totalPrice'') (JStr ''0'')),
           or_dash (field order ''financialStatus''), or_dash (field order ''createdAt'')])
       orders"

definition formatCustomersTable :: "json list \<Rightarrow> error + string" where
  "formatCustomersTable customers =
     table [''| ID | Name | Email | Orders | Total Spent |'', ''|---|---|---|---|---|'']
       (\<lambda>customer.
          [jsString (field customer ''id''),
           or_dash (JStr (trim (jsString (js_or (field customer ''firstName'') (JStr []))
                                @ '' ''
                                @ jsString (js_or (field customer ''lastName'') (JStr []))))),
           or_dash (field customer ''email''),
           jsString (js_or (field customer ''ordersCount'') (JNum 0)),
           jsString (js_or (field customer ''totalSpent'') (JStr ''0''))])
       customers"

definition formatDraftOrdersTable :: "json list \<Rightarrow> error + string" where
  "formatDraftOrdersTable draftOrders =
     table [''| ID | Name | Customer | Total | Status | Created |'', ''|---|---|---|---|---|---|'']
       (\<lambda>draftOrder.
          [jsString (field draftOrder ''id''), jsString (field draftOrder ''name''),
           customerName draftOrder,
           jsString (js_or (field draftOrder ''totalPrice'') (JStr ''0'')),
           or_dash (field draftOrder ''status''), or_dash (field draftOrder ''createdAt'')])
       draftOrders"

definition formatFulfillmentsTable :: "json list \<Rightarrow> error + string" where
  "formatFulfillmentsTable fulfillments =
     table [''| ID | Order ID | Status | Tracking # | Created |'', ''|---|---|---|---|---|'']
       (\<lambda>fulfillment.
          [jsString (field fulfillment ''id''), or_dash (field fulfillment ''orderId''),
           or_dash (field fulfillment ''status''), or_dash (field fulfillment ''trackingNumber''),
           or_dash (field fulfillment ''createdAt'')])
       fulfillments"

definition formatLocationsTable :: "json list \<Rightarrow> error + string" where
  "formatLocationsTable locations =
     table [''| ID | Name | City | Country | Active |'', ''|---|---|---|---|---|'']
       (\<lambda>location.
          [jsString (field location ''id''), jsString (field location ''name''),
           or_dash (field location ''city''), or_dash (field location ''countryCode''),
           yes_no (field location ''active'')])
       locations"

definition formatWebhooksTable :: "json list \<Rightarrow> error + string" where
  "formatWebhooksTable webhooks =
     table [''| ID | Topic | Address | Format |'', ''|---|---|---|---|'']
       (\<lambda>webhook.
          [jsString (field webhook ''id''), jsString (field webhook ''topic''),
           jsString (field webhook ''address''), or_dash (field webhook ''format'')])
       webhooks"

definition formatPriceRulesTable :: "json list \<Rightarrow> error + string" where
  "formatPriceRulesTable priceRules =
     table [''| ID | Title | Target Type | Value | Starts | Ends |'', ''|---|---|---|---|---|---|'']
       (\<lambda>rule.
          [jsString (field rule ''id''), jsString (field rule ''title''),
           or_dash (field rule ''targetType''),
           (if strict_equal (field rule ''valueType'') (JStr ''percentage'')
            then jsString (field rule ''value'') @ ''%'' else jsString (field rule ''value'')),
           or_dash (field rule ''startsAt''), or_dash (field rule ''endsAt'')])
       priceRules"

definition formatThemesAsMarkdown :: "json list \<Rightarrow> error + string" where
  "formatThemesAsMarkdown themes =
     table [''## Themes'', [], ''| ID | Name | Role | Previewable |'', ''|---|---|---|---|'']
       (\<lambda>theme.
          [jsString (field theme ''id''), jsString (field theme ''name''),
           jsString (field theme ''role''), yes_no (field theme ''previewable'')])
       themes"

text \<open>
  The generic table: the columns are the first five keys of the first item. Reading the
  keys of a first item that is \<open>null\<close> or \<open>undefined\<close> throws, and so does reading a column of
  such an item.
\<close>

definition formatGenericTable :: "json list \<Rightarrow> error + string" where
  "formatGenericTable items =
     (case items of
        [] \<Rightarrow> Inr ''_No items_''
      | first # rest \<Rightarrow>
          if first = JNull \<or> first = JUndefined then Inl TypeError
          else
            (let keys = take 5 (map fst (own_entries first)) in
             case collect
                    (map (\<lambda>item.
                            if keys \<noteq> [] \<and> (item = JNull \<or> item = JUndefined) then Inl TypeError
                            else Inr (cells (map (\<lambda>k. jsString (nullish_or (field item k) (JStr ''-'')))
                                              keys)))
                         items) of
               Inl e \<Rightarrow> Inl e
             | Inr rows \<Rightarrow>
                 Inr (join [CHR 0x0A]
                        (cells keys # (''|'' @ join ''|'' (map (\<lambda>k. ''---'') keys) @ ''|'') # rows))))"

definition formatArrayAsMarkdown :: "json list \<Rightarrow> string \<Rightarrow> error + string" where
  "formatArrayAsMarkdown data entityType =
     (if entityType = ''themes'' then formatThemesAsMarkdown data else formatGenericTable data)"

text \<open>The type guard: an object that has an \<open>items\<close> property holding an array.\<close>

definition isPaginatedResponse :: "json \<Rightarrow> bool" where
  "isPaginatedResponse data =
     (case data of
        JObj kvs \<Rightarrow> (case map_of kvs ''items'' of Some (JArr xs) \<Rightarrow> True | _ \<Rightarrow> False)
      | _ \<Rightarrow> False)"

text \<open>The choice of the table by entity type.\<close>

definition items_table :: "string \<Rightarrow> json list \<Rightarrow> error + string" where
  "items_table entityType items =
     (if entityType = ''products'' then formatProductsTable items
      else if entityType = ''orders'' then formatOrdersTable items
      else if entityType = ''customers'' then formatCustomersTable items
      else if entityType = ''draftOrders'' then formatDraftOrdersTable items
      else if entityType = ''fulfillments'' then formatFulfillmentsTable items
      else if entityType = ''locations'' then formatLocationsTable items
      else if entityType = ''webhooks'' then formatWebhooksTable items
      else if entityType = ''priceRules'' then formatPriceRulesTable items
      else formatGenericTable items)"

text \<open>
  The lines that \<open>formatPaginatedAsMarkdown\<close> pushes before the items: the heading, an empty
  line, the counts, the line about further items when \<open>hasMore\<close> is truthy, an empty line.
\<close>

definition paginated_head :: "json \<Rightarrow> string \<Rightarrow> string list" where
  "paginated_head data entityType =
     [''## '' @ capitalize entityType, []]
     @ [if field data ''total'' \<noteq> JUndefined
        then ''**Total:** '' @ jsString (field data ''total'')
             @ '' | **Showing:** '' @ jsString (field data ''count'')
        else ''**Showing:** '' @ jsString (field data ''count'')]
     @ (if truthy (field data ''hasMore'')
        then [''**More available:** Yes (cursor: `'' @ jsString (field data ''nextCursor'') @ ''`)'']
        else [])
     @ [[]]"

text \<open>The items of a value that passed the type guard.\<close>

definition items_of :: "json \<Rightarrow> json list" where
  "items_of data = (case field data ''items'' of JArr xs \<Rightarrow> xs | _ \<Rightarrow> [])"

definition formatPaginatedAsMarkdown :: "json \<Rightarrow> string \<Rightarrow> error + string" where
  "formatPaginatedAsMarkdown data entityType =
     (if length (items_of data) = 0
      then Inr (join [CHR 0x0A] (paginated_head data entityType @ [''_No items found._'']))
      else case items_table entityType (items_of data) of
             Inl e \<Rightarrow> Inl e
           | Inr t \<Rightarrow> Inr (join [CHR 0x0A] (paginated_head data entityType @ [t])))"

text \<open>
  One round of the loop of \<open>formatObjectAsMarkdown\<close> over the entries of the entity, and the
  function itself. The serialisation of an object or array always exists.
\<close>

definition is_structured :: "json \<Rightarrow> bool" where
  "is_structured v = (case v of JArr xs \<Rightarrow> True | JObj kvs \<Rightarrow> True | _ \<Rightarrow> False)"

definition pretty :: "json \<Rightarrow> string" where
  "pretty v = (case JSON_stringify_2 v of None \<Rightarrow> [] | Some s \<Rightarrow> s)"

definition object_step :: "string list \<Rightarrow> string \<times> json \<Rightarrow> string list" where
  "object_step lines kv =
     (case kv of (key, value) \<Rightarrow>
        if value = JNull \<or> value = JUndefined then lines
        else if is_structured value then
          lines @ [''**'' @ formatKey key @ '':**'', ''```json'', pretty value, ''```'']
        else lines @ [''**'' @ formatKey key @ '':** '' @ jsString value])"

definition formatObjectAsMarkdown :: "json \<Rightarrow> string \<Rightarrow> string" where
  "formatObjectAsMarkdown data entityType =
     join [CHR 0x0A]
       (foldl object_step [''## '' @ capitalize (strip_final_s entityType), []] (own_entries data))"

definition formatAsMarkdown :: "json \<Rightarrow> string \<Rightarrow> error + string" where
  "formatAsMarkdown data entityType =
     (if isPaginatedResponse data then formatPaginatedAsMarkdown data entityType
      else case data of
             JArr xs \<Rightarrow> formatArrayAsMarkdown xs entityType
           | JObj kvs \<Rightarrow> Inr (formatObjectAsMarkdown data entityType)
           | _ \<Rightarrow> Inr (jsString data))"

datatype ResponseFormat = Json | Markdown

text \<open>The text of the single content item of the tool response.\<close>

definition formatResponse :: "json \<Rightarrow> ResponseFormat \<Rightarrow> string \<Rightarrow> error + string option" where
  "formatResponse data format entityType =
     (if format = Markdown then
        (case formatAsMarkdown data entityType of Inl e \<Rightarrow> Inl e | Inr text \<Rightarrow> Inr (Some text))
      else Inr (JSON_stringify_2 data))"

text \<open>
  The single-entity rendering in the words of the specification: one line for a scalar
  field, a labelled JSON code block for a field that holds an object or an array.
\<close>

definition field_lines :: "string \<times> json \<Rightarrow> string list" where
  "field_lines kv =
     (if is_structured (snd kv)
      then [''**'' @ formatKey (fst kv) @ '':**'', ''```json'', pretty (snd kv), ''```'']
      else [''**'' @ formatKey (fst kv) @ '':** '' @ jsString (snd kv)])"

text \<open>Whether a text occurs inside another.\<close>

fun starts_with :: "string \<Rightarrow> string \<Rightarrow> bool" where
  "starts_with [] ys = True"
| "starts_with (x # xs) [] = False"
| "starts_with (x # xs) (y # ys) = (x = y \<and> starts_with xs ys)"

fun occurs_in :: "string \<Rightarrow> string \<Rightarrow> bool" where
  "occurs_in xs [] = (xs = [])"
| "occurs_in xs (y # ys) = (starts_with xs (y # ys) \<or> occurs_in xs ys)"

section \<open>Round trip of the case converters\<close>

lemma toUpperCase_toLowerCase: "is_upper c \<Longrightarrow> toUpperCase_char (toLowerCase_char c) = c"
  by (simp add: is_upper_def is_lower_def toUpperCase_char_def toLowerCase_char_def)

lemma is_lower_toLowerCase: "is_upper c \<Longrightarrow> is_lower (toLowerCase_char c)"
  by (simp add: is_upper_def is_lower_def toLowerCase_char_def)

lemma snakeToCamel_plain_head:
  "u \<noteq> CHR ''_'' \<Longrightarrow> snakeToCamel (u # xs) = u # snakeToCamel xs"
  by (cases xs) simp_all

lemma snake_camel_roundtrip:
  "CHR ''_'' \<notin> set s \<Longrightarrow> snakeToCamel (camelToSnake s) = s"
proof (induction s)
  case Nil
  show ?case by simp
next
  case (Cons c s)
  then have ih: "snakeToCamel (camelToSnake s) = s" and c: "c \<noteq> CHR ''_''"
    by auto
  show ?case
  proof (cases "is_upper c")
    case True
    then show ?thesis
      by (simp add: ih toUpperCase_toLowerCase is_lower_toLowerCase)
  next
    case False
    then show ?thesis
      by (simp add: ih snakeToCamel_plain_head [OF c])
  qed
qed

lemma schema_keys_no_underscore: "list_all (\<lambda>k. CHR ''_'' \<notin> set k) schema_keys"
  unfolding schema_keys_def by simp

text \<open>
  Claim C1. For every key of the schema vocabulary, converting it to snake_case with
  \<open>camelToSnake\<close> and back with \<open>snakeToCamel\<close> returns the key.
\<close>

theorem schema_keys_roundtrip:
  "\<forall>k \<in> set schema_keys. snakeToCamel (camelToSnake k) = k"
  using schema_keys_no_underscore snake_camel_roundtrip by (simp add: list_all_iff)

theorem schema_keys_roundtrip_witness:
  "''sinceId'' \<in> set schema_keys \<and> camelToSnake ''sinceId'' = ''since_id''
   \<and> snakeToCamel ''since_id'' = ''sinceId''"
proof -
  have m: "''sinceId'' \<in> set schema_keys"
    unfolding schema_keys_def by simp
  have c: "camelToSnake ''sinceId'' = ''since_id''"
    by code_simp
  from schema_keys_roundtrip m have "snakeToCamel (camelToSnake ''sinceId'') = ''sinceId''"
    by blast
  with m c show ?thesis by simp
qed

section \<open>The key transformation and the structure of its result\<close>

lemma obj_put_fresh: "k \<notin> fst ` set ps \<Longrightarrow> obj_put k v ps = ps @ [(k, v)]"
  by (induction ps) auto

lemma foldl_obj_set_distinct:
  "distinct (map fst (acc @ es)) \<Longrightarrow> ''__proto__'' \<notin> set (map fst es) \<Longrightarrow>
     foldl (\<lambda>acc (k, v). obj_set k v acc) acc es = acc @ es"
proof (induction es arbitrary: acc)
  case Nil
  show ?case by simp
next
  case (Cons e es)
  obtain k v where e: "e = (k, v)" by (cases e)
  from Cons.prems have fresh: "k \<notin> fst ` set acc" and k: "k \<noteq> ''__proto__''"
    by (auto simp: e)
  from Cons.prems have "distinct (map fst ((acc @ [(k, v)]) @ es))"
    and "''__proto__'' \<notin> set (map fst es)"
    by (simp_all add: e)
  from Cons.IH [OF this] show ?case
    by (simp add: e obj_set_def k obj_put_fresh [OF fresh])
qed

lemma assign_entries_distinct:
  "distinct (map fst es) \<Longrightarrow> ''__proto__'' \<notin> set (map fst es) \<Longrightarrow> assign_entries es = es"
  using foldl_obj_set_distinct [of "[]" es] by (simp add: assign_entries_def)

text \<open>
  Claim C2, as stated, for every nested value: \<open>transformKeys\<close> returns the structurally
  identical copy with every key rewritten. It fails where two keys of one mapping are
  rewritten to the same key: the wire payload below has both \<open>created_at\<close> and \<open>createdAt\<close>,
  and the result keeps a single entry. It also fails where a key is rewritten to
  \<open>__proto__\<close>, for which the assignment creates no property: the entry is lost.
\<close>

theorem transformKeys_collision_counterexample:
  "transformKeys snakeToCamel (JObj [(''created_at'', JStr ''x''), (''createdAt'', JStr ''y'')])
     = JObj [(''createdAt'', JStr ''y'')]
   \<and> transformKeys snakeToCamel (JObj [(''created_at'', JStr ''x''), (''createdAt'', JStr ''y'')])
     \<noteq> rewrite_keys snakeToCamel (JObj [(''created_at'', JStr ''x''), (''createdAt'', JStr ''y'')])
   \<and> transformKeys camelToSnake (JObj [(''__proto__'', JNum 5), (''a'', JNum 1)])
     = JObj [(''a'', JNum 1)]
   \<and> transformKeys camelToSnake (JObj [(''__proto__'', JNum 5), (''a'', JNum 1)])
     \<noteq> rewrite_keys camelToSnake (JObj [(''__proto__'', JNum 5), (''a'', JNum 1)])"
  by code_simp

text \<open>
  Claim C2, amended. For every nested value in which no mapping has two keys that the
  key-transform function rewrites to the same key, and none has a key that it rewrites to
  \<open>__proto__\<close>, \<open>transformKeys\<close> (and so \<open>toCamelCase\<close> and \<open>toSnakeCase\<close>) returns the
  structurally identical copy: every mapping key is rewritten, the recursion descends into
  nested mappings and sequences, and every scalar, \<open>null\<close> included, is returned unchanged.
\<close>

theorem transformKeys_rewrite_keys:
  "keys_apart f v \<Longrightarrow> transformKeys f v = rewrite_keys f v"
proof (induction v)
  case (JArr xs)
  then show ?case by (auto simp: list_all_iff)
next
  case (JObj kvs)
  from JObj.prems have d: "distinct (map (\<lambda>kv. f (fst kv)) kvs)"
    and np: "''__proto__'' \<notin> set (map (\<lambda>kv. f (fst kv)) kvs)"
    and sub: "\<And>k v. (k, v) \<in> set kvs \<Longrightarrow> keys_apart f v"
    by (auto simp: list_all_iff)
  have eq: "map (map_prod f (transformKeys f)) kvs = map (map_prod f (rewrite_keys f)) kvs"
  proof (rule map_cong [OF refl])
    fix kv assume m: "kv \<in> set kvs"
    obtain k v where kv: "kv = (k, v)" by (cases kv)
    from JObj.IH [of kv v] m sub [of k v]
    show "map_prod f (transformKeys f) kv = map_prod f (rewrite_keys f) kv"
      by (simp add: kv)
  qed
  have "distinct (map fst (map (map_prod f (rewrite_keys f)) kvs))"
    and "''__proto__'' \<notin> set (map fst (map (map_prod f (rewrite_keys f)) kvs))"
    using d np by (simp_all add: comp_def)
  from assign_entries_distinct [OF this] show ?case by (simp add: eq)
qed simp_all

theorem transformKeys_rewrite_keys_witness:
  "keys_apart snakeToCamel
     (JObj [(''order_number'', JNum 1001), (''note'', JNull),
            (''line_items'', JArr [JObj [(''variant_id'', JNum 7)]])])
   \<and> transformKeys snakeToCamel
     (JObj [(''order_number'', JNum 1001), (''note'', JNull),
            (''line_items'', JArr [JObj [(''variant_id'', JNum 7)]])])
     = JObj [(''orderNumber'', JNum 1001), (''note'', JNull),
             (''lineItems'', JArr [JObj [(''variantId'', JNum 7)]])]"
proof -
  let ?v = "JObj [(''order_number'', JNum 1001), (''note'', JNull),
                  (''line_items'', JArr [JObj [(''variant_id'', JNum 7)]])]"
  have k: "keys_apart snakeToCamel ?v"
    by code_simp
  have r: "rewrite_keys snakeToCamel ?v
           = JObj [(''orderNumber'', JNum 1001), (''note'', JNull),
                   (''lineItems'', JArr [JObj [(''variantId'', JNum 7)]])]"
    by code_simp
  from transformKeys_rewrite_keys [OF k] r k show ?thesis
    by simp
qed

text \<open>
  The conversion of a response never meets the exceptional key: no result of \<open>snakeToCamel\<close>
  has an underscore directly before a lower-case letter, so none is \<open>__proto__\<close>, and
  \<open>toCamelCase\<close> creates a property for every entry it assigns.
\<close>

lemma has_snake_pair_plain_head:
  "u \<noteq> CHR ''_'' \<Longrightarrow> has_snake_pair (u # xs) = has_snake_pair xs"
  by (cases xs) simp_all

lemma toUpperCase_code:
  "is_lower c \<Longrightarrow> (of_char (toUpperCase_char c) :: nat) = of_char c - 32"
proof -
  assume l: "is_lower c"
  then have "(of_char c :: nat) - 32 < 256"
    unfolding is_lower_def by arith
  with l show ?thesis
    by (simp add: toUpperCase_char_def)
qed

lemma toUpperCase_not_lower: "is_lower c \<Longrightarrow> \<not> is_lower (toUpperCase_char c)"
proof
  assume l: "is_lower c" and u: "is_lower (toUpperCase_char c)"
  from u have "97 \<le> (of_char (toUpperCase_char c) :: nat)"
    by (simp add: is_lower_def)
  with toUpperCase_code [OF l] have "97 \<le> (of_char c :: nat) - 32"
    by simp
  moreover from l have "(of_char c :: nat) \<le> 122"
    by (simp add: is_lower_def)
  ultimately show False by arith
qed

lemma toUpperCase_not_underscore: "is_lower c \<Longrightarrow> toUpperCase_char c \<noteq> CHR ''_''"
proof
  assume l: "is_lower c" and u: "toUpperCase_char c = CHR ''_''"
  from toUpperCase_code [OF l] u have "(of_char c :: nat) - 32 = 95"
    by simp
  moreover from l have "(of_char c :: nat) \<le> 122"
    by (simp add: is_lower_def)
  ultimately show False by arith
qed

lemma snakeToCamel_head:
  "snakeToCamel (c # rest) = x # ys \<Longrightarrow> x = c \<or> \<not> is_lower x"
  by (cases rest) (auto simp: toUpperCase_not_lower split: if_splits)

lemma snakeToCamel_no_snake_pair: "\<not> has_snake_pair (snakeToCamel s)"
proof (induction s rule: snakeToCamel.induct)
  case (1 u c rest)
  show ?case
  proof (cases "u = CHR ''_'' \<and> is_lower c")
    case True
    with 1 show ?thesis
      by (simp add: has_snake_pair_plain_head toUpperCase_not_underscore)
  next
    case False
    obtain x ys where xs: "snakeToCamel (c # rest) = x # ys"
      by (cases "snakeToCamel (c # rest)") (cases rest; simp split: if_splits)+
    from snakeToCamel_head [OF xs] False have "\<not> (u = CHR ''_'' \<and> is_lower x)"
      by auto
    moreover from 1 False xs have "\<not> has_snake_pair (x # ys)"
      by simp
    ultimately show ?thesis
      using False by (auto simp: xs)
  qed
qed simp_all

lemma snakeToCamel_not_proto: "snakeToCamel k \<noteq> ''__proto__''"
proof
  assume "snakeToCamel k = ''__proto__''"
  with snakeToCamel_no_snake_pair [of k] have "\<not> has_snake_pair ''__proto__''"
    by simp
  then show False by (simp add: is_lower_def)
qed

section \<open>Outcomes of the request executor\<close>

lemma showNat_digits: "showNat n \<noteq> [] \<and> list_all is_digit (showNat n)"
proof (induction n rule: showNat.induct)
  case (1 n)
  have d: "\<And>d. d < 10 \<Longrightarrow> is_digit (digit_char d)"
    by (simp add: is_digit_def digit_char_def)
  show ?case
  proof (cases "n < 10")
    case True
    then show ?thesis by (subst showNat.simps, subst showNat.simps) (simp add: d)
  next
    case False
    with 1 show ?thesis by (subst showNat.simps, subst showNat.simps) (simp add: d)
  qed
qed

lemma digit_value_digit_char: "d < 10 \<Longrightarrow> digit_value (digit_char d) = d"
  by (simp add: digit_value_def digit_char_def)

text \<open>The decimal rendering of a natural number denotes that number.\<close>

lemma decimal_value_snoc:
  "decimal_value (ds @ [c]) = 10 * decimal_value ds + int (digit_value c)"
  by (simp add: decimal_value_def)

lemma decimal_value_showNat: "decimal_value (showNat n) = int n"
proof (induction n rule: showNat.induct)
  case (1 n)
  show ?case
  proof (cases "n < 10")
    case True
    then show ?thesis
      by (subst showNat.simps) (simp add: decimal_value_def digit_value_digit_char)
  next
    case False
    with 1 have "decimal_value (showNat (n div 10)) = int (n div 10)"
      by simp
    with False show ?thesis
      by (subst showNat.simps) (simp add: decimal_value_snoc digit_value_digit_char zdiv_int zmod_int)
  qed
qed

lemma digit_not_space_or_sign:
  "is_digit c \<Longrightarrow> \<not> is_js_space c \<and> c \<noteq> CHR ''-'' \<and> c \<noteq> CHR ''+''"
  by (auto simp: is_digit_def is_js_space_def)

lemma sign_not_space: "\<not> is_js_space (CHR ''-'')" "\<not> is_js_space (CHR ''+'')"
  by (simp_all add: is_js_space_def)

lemma dropWhile_spaces:
  "list_all is_js_space ws \<Longrightarrow> ys = [] \<or> \<not> is_js_space (hd ys) \<Longrightarrow>
     dropWhile is_js_space (ws @ ys) = ys"
  by (induction ws) (auto simp: dropWhile_eq_self_iff)

lemma takeWhile_digits:
  "list_all is_digit ds \<Longrightarrow> rest = [] \<or> \<not> is_digit (hd rest) \<Longrightarrow>
     takeWhile is_digit (ds @ rest) = ds"
  by (induction ds) (auto simp: takeWhile_eq_Nil_iff)

text \<open>
  What \<open>parseInt\<close> reads from a text that holds a numeral: white space, an optional sign, a
  run of digits, and a remainder that does not continue the run.
\<close>

lemma parseInt10_numeral:
  assumes ws: "list_all is_js_space ws"
    and sg: "sg = [] \<or> sg = ''+'' \<or> sg = ''-''"
    and ds: "ds \<noteq> []" "list_all is_digit ds"
    and rest: "rest = [] \<or> \<not> is_digit (hd rest)"
  shows "parseInt10 (ws @ sg @ ds @ rest)
     = (if decimal_value ds \<le> 9007199254740992
        then Num ((if sg = ''-'' then - 1 else 1) * decimal_value ds) else Beyond)"
proof -
  from ds obtain d ds' where d: "ds = d # ds'" "is_digit d"
    by (cases ds) auto
  have hd_ok: "sg @ ds @ rest = [] \<or> \<not> is_js_space (hd (sg @ ds @ rest))"
    using sg d digit_not_space_or_sign [OF d(2)] by (auto simp: sign_not_space)
  have t: "dropWhile is_js_space (ws @ sg @ ds @ rest) = sg @ ds @ rest"
    using dropWhile_spaces [OF ws hd_ok] .
  have tw: "takeWhile is_digit (ds @ rest) = ds"
    using takeWhile_digits [OF ds(2) rest] .
  from sg show ?thesis
  proof (elim disjE)
    assume "sg = []"
    then show ?thesis
      unfolding parseInt10_def Let_def t
      using d digit_not_space_or_sign [OF d(2)] tw by simp
  next
    assume "sg = ''+''"
    then show ?thesis
      unfolding parseInt10_def Let_def t
      using ds(1) tw by simp
  next
    assume "sg = ''-''"
    then show ?thesis
      unfolding parseInt10_def Let_def t
      using ds(1) tw by simp
  qed
qed

text \<open>What \<open>parseInt\<close> reads from a text in which no digit follows the space and sign.\<close>

lemma parseInt10_no_numeral:
  assumes ws: "list_all is_js_space ws"
    and sg: "sg = [] \<or> sg = ''+'' \<or> sg = ''-''"
    and rest: "rest = [] \<or> \<not> is_digit (hd rest)"
    and unsigned: "sg = [] \<longrightarrow> rest = []
        \<or> (\<not> is_js_space (hd rest) \<and> hd rest \<noteq> CHR ''+'' \<and> hd rest \<noteq> CHR ''-'')"
  shows "parseInt10 (ws @ sg @ rest) = NaN"
proof -
  have hd_ok: "sg @ rest = [] \<or> \<not> is_js_space (hd (sg @ rest))"
    using sg unsigned by (auto simp: sign_not_space)
  have t: "dropWhile is_js_space (ws @ sg @ rest) = sg @ rest"
    using dropWhile_spaces [OF ws hd_ok] .
  have tw: "takeWhile is_digit rest = []"
    using rest by (cases rest) auto
  from sg show ?thesis
  proof (elim disjE)
    assume "sg = []"
    then show ?thesis
      unfolding parseInt10_def Let_def t
      using unsigned tw by (cases rest) auto
  next
    assume "sg = ''+''"
    then show ?thesis
      unfolding parseInt10_def Let_def t using tw by simp
  next
    assume "sg = ''-''"
    then show ?thesis
      unfolding parseInt10_def Let_def t using tw by simp
  qed
qed

text \<open>
  Claim C5, as stated, makes the wait hint the numeric value of the \<open>Retry-After\<close> header
  whenever the header is present. The header \<open>1.5\<close> gives the hint 1, and a header that holds
  an HTTP date, the other form the header may take, gives \<open>NaN\<close>: the value is read by
  \<open>parseInt\<close>.
\<close>

theorem rate_limit_retry_after_counterexample:
  "request \<lparr>status = 429, retry_after = Some ''1.5'', body = None\<rparr>
     = Inl (RateLimitError ''Rate limit exceeded'' (Num 1))
   \<and> request \<lparr>status = 429, retry_after = Some ''Wed, 21 Oct 2015 07:28:00 GMT'', body = None\<rparr>
     = Inl (RateLimitError ''Rate limit exceeded'' NaN)"
  by code_simp

text \<open>
  Claim C5, amended. When the response status is 429, \<open>request\<close> raises a \<open>RateLimitError\<close>.
  Its wait hint is 60 when the \<open>Retry-After\<close> header is absent or empty. Otherwise it is what
  \<open>parseInt\<close> reads from the header: when the header holds, after optional white space and an
  optional sign, a run of decimal digits, the hint is the integer these digits denote, with
  the sign, whatever follows the digits (so \<open>30\<close> gives 30, \<open>030\<close> gives 30, and \<open>2.0\<close> gives 2),
  or the double to which that integer is rounded when it exceeds \<open>2^53\<close>; when no digit
  stands there, as in an HTTP date, the hint is \<open>NaN\<close>.
\<close>

theorem rate_limit_retry_after:
  assumes "status r = 429"
  shows "\<exists>hint. request r = Inl (RateLimitError ''Rate limit exceeded'' hint)
     \<and> (retry_after r = None \<or> retry_after r = Some [] \<longrightarrow> hint = Num 60)
     \<and> (\<forall>n. retry_after r = Some (showNat n) \<and> n \<le> 9007199254740992 \<longrightarrow> hint = Num (int n))
     \<and> (\<forall>ws sg ds rest.
           retry_after r = Some (ws @ sg @ ds @ rest) \<and> list_all is_js_space ws
           \<and> (sg = [] \<or> sg = ''+'' \<or> sg = ''-'') \<and> ds \<noteq> [] \<and> list_all is_digit ds
           \<and> (rest = [] \<or> \<not> is_digit (hd rest))
           \<longrightarrow> hint = (if decimal_value ds \<le> 9007199254740992
                       then Num ((if sg = ''-'' then - 1 else 1) * decimal_value ds)
                       else Beyond))
     \<and> (\<forall>ws sg rest.
           retry_after r = Some (ws @ sg @ rest) \<and> ws @ sg @ rest \<noteq> [] \<and> list_all is_js_space ws
           \<and> (sg = [] \<or> sg = ''+'' \<or> sg = ''-'') \<and> (rest = [] \<or> \<not> is_digit (hd rest))
           \<and> (sg = [] \<longrightarrow> rest = []
                \<or> (\<not> is_js_space (hd rest) \<and> hd rest \<noteq> CHR ''+'' \<and> hd rest \<noteq> CHR ''-''))
           \<longrightarrow> hint = NaN)"
proof -
  let ?hint = "case retry_after r of None \<Rightarrow> Num 60
               | Some h \<Rightarrow> if h \<noteq> [] then parseInt10 h else Num 60"
  have req: "request r = Inl (RateLimitError ''Rate limit exceeded'' ?hint)"
    using assms by (simp add: request_def)
  show ?thesis
  proof (intro exI [of _ ?hint] conjI allI impI)
    show "request r = Inl (RateLimitError ''Rate limit exceeded'' ?hint)"
      by (rule req)
  next
    assume "retry_after r = None \<or> retry_after r = Some []"
    then show "?hint = Num 60" by auto
  next
    fix n
    assume h: "retry_after r = Some (showNat n) \<and> n \<le> 9007199254740992"
    from showNat_digits [of n] have ne: "showNat n \<noteq> []" and dg: "list_all is_digit (showNat n)"
      by simp_all
    have "parseInt10 ([] @ [] @ showNat n @ [])
        = (if decimal_value (showNat n) \<le> 9007199254740992
           then Num ((if [] = ''-'' then - 1 else 1) * decimal_value (showNat n)) else Beyond)"
      by (rule parseInt10_numeral) (simp_all add: ne dg)
    with h have "parseInt10 (showNat n) = Num (int n)"
      by (simp add: decimal_value_showNat)
    with h ne show "?hint = Num (int n)" by simp
  next
    fix ws sg ds rest
    assume h: "retry_after r = Some (ws @ sg @ ds @ rest) \<and> list_all is_js_space ws
           \<and> (sg = [] \<or> sg = ''+'' \<or> sg = ''-'') \<and> ds \<noteq> [] \<and> list_all is_digit ds
           \<and> (rest = [] \<or> \<not> is_digit (hd rest))"
    then have ra: "retry_after r = Some (ws @ sg @ ds @ rest)" and ne: "ds \<noteq> []"
      by blast+
    from h have "parseInt10 (ws @ sg @ ds @ rest)
        = (if decimal_value ds \<le> 9007199254740992
           then Num ((if sg = ''-'' then - 1 else 1) * decimal_value ds) else Beyond)"
      by (intro parseInt10_numeral) blast+
    then show "?hint = (if decimal_value ds \<le> 9007199254740992
                       then Num ((if sg = ''-'' then - 1 else 1) * decimal_value ds)
                       else Beyond)"
      unfolding ra using ne by simp
  next
    fix ws sg rest
    assume h: "retry_after r = Some (ws @ sg @ rest) \<and> ws @ sg @ rest \<noteq> [] \<and> list_all is_js_space ws
           \<and> (sg = [] \<or> sg = ''+'' \<or> sg = ''-'') \<and> (rest = [] \<or> \<not> is_digit (hd rest))
           \<and> (sg = [] \<longrightarrow> rest = []
                \<or> (\<not> is_js_space (hd rest) \<and> hd rest \<noteq> CHR ''+'' \<and> hd rest \<noteq> CHR ''-''))"
    then have ra: "retry_after r = Some (ws @ sg @ rest)" and ne: "ws @ sg @ rest \<noteq> []"
      by blast+
    from h have "parseInt10 (ws @ sg @ rest) = NaN"
      by (intro parseInt10_no_numeral) blast+
    then show "?hint = NaN"
      unfolding ra using ne by simp
  qed
qed

theorem rate_limit_retry_after_witness:
  "status \<lparr>status = 429, retry_after = Some ''30'', body = None\<rparr> = 429
   \<and> showNat 30 = ''30''
   \<and> request \<lparr>status = 429, retry_after = Some ''30'', body = None\<rparr>
       = Inl (RateLimitError ''Rate limit exceeded'' (Num 30))
   \<and> request \<lparr>status = 429, retry_after = None, body = None\<rparr>
       = Inl (RateLimitError ''Rate limit exceeded'' (Num 60))"
proof -
  let ?r = "\<lparr>status = 429, retry_after = Some ''30'', body = None\<rparr>"
  let ?q = "\<lparr>status = 429, retry_after = None, body = None\<rparr>"
  have s: "showNat 30 = ''30''" by code_simp
  have "status ?r = 429" by simp
  from rate_limit_retry_after [OF this]
  obtain hint where r: "request ?r = Inl (RateLimitError ''Rate limit exceeded'' hint)"
    and n: "\<forall>n. retry_after ?r = Some (showNat n) \<and> n \<le> 9007199254740992 \<longrightarrow> hint = Num (int n)"
    by (elim exE conjE) (rule that; assumption)
  from n [rule_format, of 30] s have "hint = Num 30" by simp
  with r have a: "request ?r = Inl (RateLimitError ''Rate limit exceeded'' (Num 30))"
    by simp
  have "status ?q = 429" by simp
  from rate_limit_retry_after [OF this]
  obtain hint' where q: "request ?q = Inl (RateLimitError ''Rate limit exceeded'' hint')"
    and m: "retry_after ?q = None \<or> retry_after ?q = Some [] \<longrightarrow> hint' = Num 60"
    by (elim exE conjE) (rule that; assumption)
  from m have "hint' = Num 60" by simp
  with q have b: "request ?q = Inl (RateLimitError ''Rate limit exceeded'' (Num 60))"
    by simp
  from a b s show ?thesis by simp
qed

lemma truthy_stringify: "truthy v \<Longrightarrow> \<exists>s. JSON_stringify v = Some s"
  by (cases v) (simp_all add: JSON_stringify_def Let_def)

text \<open>
  Claim C6, as stated, makes the message the value of the \<open>errors\<close> field whenever that field
  is a string, and \<open>API error: <status>\<close> when there is nothing to extract. A status 500 with
  the body \<open>{"errors": ""}\<close> has a string in that field, and the message is neither that
  string nor the claimed generic text: the field is tested for truthiness first, and the
  generic text that the source writes begins with \<open>Shopify\<close>.
\<close>

theorem api_error_message_counterexample:
  "request \<lparr>status = 500, retry_after = None, body = Some (JObj [(''errors'', JStr [])])\<rparr>
     = Inl (CrmApiError ''Shopify API error: 500'' 500)
   \<and> request \<lparr>status = 500, retry_after = None, body = Some (JObj [(''errors'', JStr [])])\<rparr>
     \<noteq> Inl (CrmApiError [] 500)
   \<and> request \<lparr>status = 500, retry_after = None, body = Some (JObj [(''errors'', JStr [])])\<rparr>
     \<noteq> Inl (CrmApiError ''API error: 500'' 500)"
  by code_simp

text \<open>
  Claim C6, amended. For a response whose status is not 2xx and not 429, 401, 403 or 404,
  \<open>request\<close> raises a \<open>CrmApiError\<close> carrying the status. Its message is the \<open>errors\<close> field
  of the parsed body when that field is a non-empty string; it is the JSON serialisation of
  that field when the field is any other truthy value (an object, an array, a non-zero
  number or \<open>true\<close>); and it is \<open>Shopify API error: <status>\<close> otherwise, that is when the
  body is no JSON, when reading the field fails, or when the field is missing or falsy
  (\<open>null\<close>, \<open>false\<close>, \<open>0\<close> or the empty string).
\<close>

theorem api_error_message:
  assumes "\<not> ok r" and "status r \<noteq> 429" and "status r \<noteq> 401"
    and "status r \<noteq> 403" and "status r \<noteq> 404"
  shows "\<exists>msg. request r = Inl (CrmApiError msg (status r))
     \<and> (\<forall>j s. body r = Some j \<and> member j ''errors'' = Inr (JStr s) \<and> s \<noteq> [] \<longrightarrow> msg = s)
     \<and> (\<forall>j e. body r = Some j \<and> member j ''errors'' = Inr e \<and> truthy e \<and> (\<forall>s. e \<noteq> JStr s)
            \<longrightarrow> JSON_stringify e = Some msg)
     \<and> (body r = None
          \<or> (\<exists>j. body r = Some j \<and> member j ''errors'' = Inl TypeError)
          \<or> (\<exists>j e. body r = Some j \<and> member j ''errors'' = Inr e \<and> \<not> truthy e)
          \<longrightarrow> msg = ''Shopify API error: '' @ showInt (status r))"
proof -
  have req: "request r = Inl (CrmApiError (error_message r) (status r))"
    using assms by (simp add: request_def)
  have a: "\<And>j s. body r = Some j \<Longrightarrow> member j ''errors'' = Inr (JStr s) \<Longrightarrow> s \<noteq> []
             \<Longrightarrow> error_message r = s"
    by (simp add: error_message_def)
  have b: "\<And>j e. body r = Some j \<Longrightarrow> member j ''errors'' = Inr e \<Longrightarrow> truthy e
             \<Longrightarrow> \<forall>s. e \<noteq> JStr s \<Longrightarrow> JSON_stringify e = Some (error_message r)"
  proof -
    fix j e
    assume h: "body r = Some j" "member j ''errors'' = Inr e" "truthy e" "\<forall>s. e \<noteq> JStr s"
    from truthy_stringify [OF h(3)] obtain t where t: "JSON_stringify e = Some t" ..
    from h t show "JSON_stringify e = Some (error_message r)"
      by (cases e) (simp_all add: error_message_def)
  qed
  have c: "body r = None
          \<or> (\<exists>j. body r = Some j \<and> member j ''errors'' = Inl TypeError)
          \<or> (\<exists>j e. body r = Some j \<and> member j ''errors'' = Inr e \<and> \<not> truthy e)
          \<Longrightarrow> error_message r = ''Shopify API error: '' @ showInt (status r)"
    by (auto simp: error_message_def default_message_def)
  from req a b c show ?thesis by blast
qed

theorem api_error_message_witness:
  "\<not> ok \<lparr>status = 500, retry_after = None, body = Some (JObj [(''errors'', JStr ''foo'')])\<rparr>
   \<and> request \<lparr>status = 500, retry_after = None, body = Some (JObj [(''errors'', JStr ''foo'')])\<rparr>
       = Inl (CrmApiError ''foo'' 500)"
proof -
  let ?r = "\<lparr>status = 500, retry_after = None, body = Some (JObj [(''errors'', JStr ''foo'')])\<rparr>"
  have n: "\<not> ok ?r" by (simp add: ok_def)
  have m: "member (JObj [(''errors'', JStr ''foo'')]) ''errors'' = Inr (JStr ''foo'')"
    by (simp add: member_def)
  from api_error_message [of ?r] n
  obtain msg where r: "request ?r = Inl (CrmApiError msg (status ?r))"
    and s: "\<forall>j s. body ?r = Some j \<and> member j ''errors'' = Inr (JStr s) \<and> s \<noteq> [] \<longrightarrow> msg = s"
    by auto
  from s m have "msg = ''foo''" by simp
  with r n show ?thesis by simp
qed

text \<open>
  Claim C7. A 204 response makes \<open>request\<close> return successfully with \<open>undefined\<close>, the
  no-content value. It is not the empty object, which is what a 200 response with the body
  \<open>{}\<close> returns, so the two outcomes can be told apart.
\<close>

theorem no_content_sentinel:
  "status r = 204 \<Longrightarrow> status r' = 200 \<Longrightarrow> body r' = Some (JObj []) \<Longrightarrow>
     request r = Inr JUndefined \<and> request r' = Inr (JObj []) \<and> request r \<noteq> request r'"
  by (simp add: request_def ok_def toCamelCase_def assign_entries_def)

theorem no_content_sentinel_witness:
  "request \<lparr>status = 204, retry_after = None, body = None\<rparr> = Inr JUndefined
   \<and> request \<lparr>status = 200, retry_after = None, body = Some (JObj [])\<rparr> = Inr (JObj [])"
  using no_content_sentinel [of "\<lparr>status = 204, retry_after = None, body = None\<rparr>"
      "\<lparr>status = 200, retry_after = None, body = Some (JObj [])\<rparr>"]
  by simp

section \<open>The parameters built by the query builder\<close>

lemma nullish_transformKeys:
  "(transformKeys f v = JNull) = (v = JNull)" "(transformKeys f v = JUndefined) = (v = JUndefined)"
  by (cases v; simp)+

lemma jsString_transformKeys: "jsString (transformKeys f v) = jsString v"
proof (induction v)
  case (JArr xs)
  let ?g = "\<lambda>x. if x = JNull \<or> x = JUndefined then [] else jsString x"
  have m: "map ?g (map (transformKeys f) xs) = map ?g xs"
    unfolding map_map
    by (rule map_cong [OF refl]) (simp add: JArr.IH nullish_transformKeys)
  show ?case
    by (simp only: transformKeys.simps jsString.simps m)
qed simp_all

lemma param_value_jsString: "param_value v = jsString v"
  by (cases v) (simp_all add: param_value_def array_join_def)

lemma query_step_param_value:
  "query_step qp (k, v) =
     (if v \<noteq> JUndefined \<and> v \<noteq> JNull then usp_set k (param_value v) qp else qp)"
  by (cases v) (simp_all add: query_step_def param_value_def)

lemma usp_set_fresh: "k \<notin> set (map fst ps) \<Longrightarrow> usp_set k v ps = ps @ [(k, v)]"
  by (induction ps) auto

lemma foldl_query_step_distinct:
  "distinct (map fst acc @ map fst es) \<Longrightarrow>
     foldl query_step acc es
       = acc @ map (\<lambda>kv. (fst kv, param_value (snd kv)))
                 (filter (\<lambda>kv. snd kv \<noteq> JUndefined \<and> snd kv \<noteq> JNull) es)"
proof (induction es arbitrary: acc)
  case Nil
  show ?case by simp
next
  case (Cons e es)
  obtain k v where e: "e = (k, v)" by (cases e)
  from Cons.prems have fresh: "k \<notin> set (map fst acc)" by (auto simp: e)
  show ?case
  proof (cases "v \<noteq> JUndefined \<and> v \<noteq> JNull")
    case True
    from Cons.prems have "distinct (map fst (acc @ [(k, param_value v)]) @ map fst es)"
      by (simp add: e)
    from Cons.IH [OF this] True show ?thesis
      by (simp add: e query_step_param_value usp_set_fresh [OF fresh])
  next
    case False
    from Cons.prems have "distinct (map fst acc @ map fst es)" by (simp add: e)
    from Cons.IH [OF this] False show ?thesis
      by (auto simp: e query_step_param_value)
  qed
qed

lemma obj_put_keys: "set (map fst (obj_put k v ps)) = insert k (set (map fst ps))"
proof (induction ps)
  case Nil
  show ?case by simp
next
  case (Cons p ps)
  obtain k' v' where p: "p = (k', v')" by (cases p)
  show ?case
  proof (cases "k' = k")
    case True
    then show ?thesis by (simp add: p)
  next
    case False
    with Cons show ?thesis by (simp add: p insert_commute)
  qed
qed

lemma obj_put_distinct: "distinct (map fst ps) \<Longrightarrow> distinct (map fst (obj_put k v ps))"
proof (induction ps)
  case Nil
  show ?case by simp
next
  case (Cons p ps)
  obtain k' v' where p: "p = (k', v')" by (cases p)
  from Cons have d: "distinct (map fst (obj_put k v ps))" and n: "k' \<notin> set (map fst ps)"
    by (simp_all add: p)
  show ?case
  proof (cases "k' = k")
    case True
    with Cons.prems show ?thesis by (simp add: p)
  next
    case False
    with n have "k' \<notin> set (map fst (obj_put k v ps))"
      unfolding obj_put_keys by simp
    with d False show ?thesis by (simp add: p)
  qed
qed

lemma obj_set_distinct: "distinct (map fst ps) \<Longrightarrow> distinct (map fst (obj_set k v ps))"
  by (simp add: obj_set_def obj_put_distinct)

lemma foldl_obj_set_keys_distinct:
  "distinct (map fst acc) \<Longrightarrow> distinct (map fst (foldl (\<lambda>acc (k, v). obj_set k v acc) acc es))"
proof (induction es arbitrary: acc)
  case Nil
  then show ?case by simp
next
  case (Cons e es)
  obtain k v where e: "e = (k, v)" by (cases e)
  from Cons.IH [OF obj_set_distinct [OF Cons.prems, of k v]] show ?case
    by (simp add: e)
qed

lemma assign_entries_keys_distinct: "distinct (map fst (assign_entries es))"
  by (simp add: assign_entries_def foldl_obj_set_keys_distinct)

lemma obj_put_map_values:
  "obj_put k (g v) (map (\<lambda>kv. (fst kv, g (snd kv))) ps)
     = map (\<lambda>kv. (fst kv, g (snd kv))) (obj_put k v ps)"
  by (induction ps) auto

lemma obj_set_map_values:
  "obj_set k (g v) (map (\<lambda>kv. (fst kv, g (snd kv))) ps)
     = map (\<lambda>kv. (fst kv, g (snd kv))) (obj_set k v ps)"
  by (simp add: obj_set_def obj_put_map_values)

lemma foldl_obj_set_map_values:
  "foldl (\<lambda>acc (k, v). obj_set k v acc) (map (\<lambda>kv. (fst kv, g (snd kv))) acc)
       (map (\<lambda>kv. (f (fst kv), g (snd kv))) es)
     = map (\<lambda>kv. (fst kv, g (snd kv)))
         (foldl (\<lambda>acc (k, v). obj_set k v acc) acc (map (\<lambda>kv. (f (fst kv), snd kv)) es))"
proof (induction es arbitrary: acc)
  case Nil
  show ?case by simp
next
  case (Cons e es)
  from Cons.IH [of "obj_set (f (fst e)) (snd e) acc"] show ?case
    by (simp add: obj_set_map_values)
qed

lemma assign_entries_map_values:
  "assign_entries (map (\<lambda>kv. (f (fst kv), g (snd kv))) es)
     = map (\<lambda>kv. (fst kv, g (snd kv))) (assign_entries (map (\<lambda>kv. (f (fst kv), snd kv)) es))"
  unfolding assign_entries_def
  using foldl_obj_set_map_values [of g "[]" f es] by simp

lemma map_prod_fst_snd: "map_prod f g = (\<lambda>kv. (f (fst kv), g (snd kv)))"
  by (auto simp: fun_eq_iff)

lemma toSnakeCase_object:
  "toSnakeCase (JObj kvs)
     = JObj (map (\<lambda>kv. (fst kv, transformKeys camelToSnake (snd kv))) (wire_named kvs))"
  unfolding toSnakeCase_def wire_named_def transformKeys.simps map_prod_fst_snd
  by (simp only: assign_entries_map_values)

lemma query_params_object:
  "query_params (JObj kvs)
     = Inr (map (\<lambda>kv. (fst kv, param_value (snd kv)))
              (filter (\<lambda>kv. snd kv \<noteq> JUndefined \<and> snd kv \<noteq> JNull) (wire_named kvs)))"
proof -
  let ?T = "transformKeys camelToSnake"
  let ?W = "wire_named kvs"
  let ?S = "map (\<lambda>kv. (fst kv, ?T (snd kv))) ?W"
  have d: "distinct (map fst [] @ map fst ?S)"
    by (simp add: wire_named_def assign_entries_keys_distinct comp_def)
  have f: "filter (\<lambda>kv. snd kv \<noteq> JUndefined \<and> snd kv \<noteq> JNull) ?S
           = map (\<lambda>kv. (fst kv, ?T (snd kv)))
               (filter (\<lambda>kv. snd kv \<noteq> JUndefined \<and> snd kv \<noteq> JNull) ?W)"
    by (simp add: filter_map comp_def nullish_transformKeys)
  have "foldl query_step [] ?S
        = map (\<lambda>kv. (fst kv, param_value (snd kv)))
            (filter (\<lambda>kv. snd kv \<noteq> JUndefined \<and> snd kv \<noteq> JNull) ?W)"
    unfolding foldl_query_step_distinct [OF d] f
    by (simp add: comp_def param_value_jsString jsString_transformKeys)
  then show ?thesis
    by (simp add: query_params_def toSnakeCase_object)
qed

lemma wire_named_distinct:
  "distinct (map (\<lambda>kv. camelToSnake (fst kv)) kvs) \<Longrightarrow>
   ''__proto__'' \<notin> set (map (\<lambda>kv. camelToSnake (fst kv)) kvs) \<Longrightarrow>
     wire_named kvs = map (\<lambda>kv. (camelToSnake (fst kv), snd kv)) kvs"
  unfolding wire_named_def by (rule assign_entries_distinct) (simp_all add: comp_def)

text \<open>
  Claim C8. For every option mapping, with numbers in the safe range, the string that
  \<open>buildQueryParams\<close> returns is the serialisation of these parameters: the entries of the
  mapping under its wire-cased names, without those whose value is \<open>undefined\<close> or \<open>null\<close>,
  each with the comma-joined array or the stringified value. When no two names have the same
  wire form and none has the wire form \<open>__proto__\<close>, as with the options of the tools, the
  mapping under its wire-cased names has one entry per option, in the order of the options.
  The options \<open>{ limit: 2, sinceId: "5", ids: ["10","11"] }\<close> give exactly the parameters
  \<open>limit=2\<close>, \<open>since_id=5\<close> and \<open>ids=10,11\<close>; in the form-urlencoded string that carries them the
  comma of the joined value is percent-encoded.
\<close>

theorem query_builder_rules:
  assumes "exact_numbers (JObj kvs)"
  shows "buildQueryParams (JObj kvs)
     = Inr (usp_toString
              (map (\<lambda>kv. (fst kv, param_value (snd kv)))
                 (filter (\<lambda>kv. snd kv \<noteq> JUndefined \<and> snd kv \<noteq> JNull) (wire_named kvs))))
   \<and> (distinct (map (\<lambda>kv. camelToSnake (fst kv)) kvs)
        \<and> ''__proto__'' \<notin> set (map (\<lambda>kv. camelToSnake (fst kv)) kvs) \<longrightarrow>
        wire_named kvs = map (\<lambda>kv. (camelToSnake (fst kv), snd kv)) kvs)"
  using query_params_object [of kvs] wire_named_distinct [of kvs]
  by (simp add: buildQueryParams_def)

theorem query_builder_rules_witness:
  "exact_numbers
     (JObj [(''limit'', JNum 2), (''sinceId'', JStr ''5''), (''ids'', JArr [JStr ''10'', JStr ''11''])])
   \<and> query_params
       (JObj [(''limit'', JNum 2), (''sinceId'', JStr ''5''), (''ids'', JArr [JStr ''10'', JStr ''11''])])
     = Inr [(''limit'', ''2''), (''since_id'', ''5''), (''ids'', ''10,11'')]
   \<and> buildQueryParams
       (JObj [(''limit'', JNum 2), (''sinceId'', JStr ''5''), (''ids'', JArr [JStr ''10'', JStr ''11''])])
     = Inr ''limit=2&since_id=5&ids=10%2C11''"
proof -
  let ?kvs = "[(''limit'', JNum 2), (''sinceId'', JStr ''5''), (''ids'', JArr [JStr ''10'', JStr ''11''])]"
  have e: "exact_numbers (JObj ?kvs)"
    by simp
  have d: "distinct (map (\<lambda>kv. camelToSnake (fst kv)) ?kvs)
        \<and> ''__proto__'' \<notin> set (map (\<lambda>kv. camelToSnake (fst kv)) ?kvs)"
    by code_simp
  from query_builder_rules [OF e] d
  have w: "wire_named ?kvs = map (\<lambda>kv. (camelToSnake (fst kv), snd kv)) ?kvs"
    and q: "buildQueryParams (JObj ?kvs)
       = Inr (usp_toString
              (map (\<lambda>kv. (fst kv, param_value (snd kv)))
                 (filter (\<lambda>kv. snd kv \<noteq> JUndefined \<and> snd kv \<noteq> JNull) (wire_named ?kvs))))"
    by blast+
  have p: "map (\<lambda>kv. (fst kv, param_value (snd kv)))
          (filter (\<lambda>kv. snd kv \<noteq> JUndefined \<and> snd kv \<noteq> JNull)
             (map (\<lambda>kv. (camelToSnake (fst kv), snd kv)) ?kvs))
        = [(''limit'', ''2''), (''since_id'', ''5''), (''ids'', ''10,11'')]"
    by code_simp
  have t: "usp_toString [(''limit'', ''2''), (''since_id'', ''5''), (''ids'', ''10,11'')]
     = ''limit=2&since_id=5&ids=10%2C11''"
    by code_simp
  have qp: "query_params (JObj ?kvs) = Inr [(''limit'', ''2''), (''since_id'', ''5''), (''ids'', ''10,11'')]"
    unfolding query_params_object w p ..
  from q e qp show ?thesis
    unfolding w p t by simp
qed

section \<open>The envelope of the list operations\<close>

lemma showNat_not_length: "showNat i \<noteq> ''length''"
proof
  assume "showNat i = ''length''"
  with showNat_digits [of i] have "list_all is_digit ''length''" by simp
  then show False by (simp add: is_digit_def)
qed

lemma array_length: "member (JArr xs) ''length'' = Inr (JNum (int (length xs)))"
proof -
  have "''length'' \<notin> set (map showNat [0..<length xs])"
    using showNat_not_length by (metis ex_map_conv)
  then have n: "map_of (zip (map showNat [0..<length xs]) xs) ''length'' = None"
    by (subst map_of_zip_is_None) simp_all
  show ?thesis unfolding member_def own_entries.simps n by simp
qed

text \<open>
  Claim C4. For every list operation that returns an envelope, with the limit that the tools
  pass on, which is absent or at least 1, \<open>count\<close> is the length of the items, and \<open>hasMore\<close> is
  true exactly when that length equals the requested limit, 50 when no limit is supplied;
  so it is false when there are fewer items than the requested limit.
\<close>

theorem list_envelope:
  assumes "list_operation op params r = Inr env"
    and "optional_limit params = JUndefined \<or> (\<exists>n. optional_limit params = JNum n \<and> 1 \<le> n)"
  shows "\<exists>items len.
       member env ''items'' = Inr items \<and> member items ''length'' = Inr len
     \<and> member env ''count'' = Inr len
     \<and> member env ''hasMore'' = Inr (JBool (len = requested_limit params))
     \<and> (\<forall>xs. items = JArr xs \<longrightarrow> len = JNum (int (length xs)))
     \<and> (\<forall>n l. len = JNum n \<and> requested_limit params = JNum l \<and> n < l
           \<longrightarrow> member env ''hasMore'' = Inr (JBool False))"
proof -
  from assms(1) obtain data where p: "paginate (list_field op) params data = Inr env"
    by (auto simp: list_operation_def split: sum.splits)
  then obtain items len where i: "member data (list_field op) = Inr items"
    and l: "member items ''length'' = Inr len"
    and env: "env = JObj [(''items'', items), (''count'', len),
        (''hasMore'', JBool (strict_equal len (js_or (optional_limit params) (JNum 50))))]"
    by (auto simp: paginate_def split: sum.splits)
  from assms(2) obtain l' where lim: "js_or (optional_limit params) (JNum 50) = JNum l'"
    and rl: "requested_limit params = JNum l'"
    by (auto simp: js_or_def requested_limit_def)
  have se: "strict_equal len (JNum l') = (len = JNum l')"
    by (cases len) simp_all
  have arr: "\<forall>xs. items = JArr xs \<longrightarrow> len = JNum (int (length xs))"
    using l by (auto simp: array_length)
  have "member env ''items'' = Inr items" "member env ''count'' = Inr len"
    "member env ''hasMore'' = Inr (JBool (len = requested_limit params))"
    by (simp_all add: env member_def lim se rl)
  moreover from this(3) rl
  have "\<forall>n l. len = JNum n \<and> requested_limit params = JNum l \<and> n < l
           \<longrightarrow> member env ''hasMore'' = Inr (JBool False)"
    by auto
  ultimately show ?thesis using l arr by blast
qed

theorem list_envelope_witness:
  "list_operation ListOrders (JObj [(''limit'', JNum 1)])
     \<lparr>status = 200, retry_after = None,
      body = Some (JObj [(''orders'', JArr [JObj [(''order_number'', JNum 1001)]])])\<rparr>
   = Inr (JObj [(''items'', JArr [JObj [(''orderNumber'', JNum 1001)]]), (''count'', JNum 1),
                (''hasMore'', JBool True)])
   \<and> optional_limit (JObj [(''limit'', JNum 1)]) = JNum 1
   \<and> requested_limit (JObj [(''limit'', JNum 1)]) = JNum 1
   \<and> (\<exists>items len.
         member (JObj [(''items'', JArr [JObj [(''orderNumber'', JNum 1001)]]), (''count'', JNum 1),
                       (''hasMore'', JBool True)]) ''items'' = Inr items
       \<and> member items ''length'' = Inr len
       \<and> member (JObj [(''items'', JArr [JObj [(''orderNumber'', JNum 1001)]]), (''count'', JNum 1),
                       (''hasMore'', JBool True)]) ''count'' = Inr len
       \<and> member (JObj [(''items'', JArr [JObj [(''orderNumber'', JNum 1001)]]), (''count'', JNum 1),
                       (''hasMore'', JBool True)]) ''hasMore'' = Inr (JBool (len = JNum 1)))"
proof -
  let ?params = "JObj [(''limit'', JNum 1)]"
  let ?r = "\<lparr>status = 200, retry_after = None,
      body = Some (JObj [(''orders'', JArr [JObj [(''order_number'', JNum 1001)]])])\<rparr>"
  let ?xs = "[JObj [(''orderNumber'', JNum 1001)]]"
  let ?env = "JObj [(''items'', JArr ?xs), (''count'', JNum 1), (''hasMore'', JBool True)]"
  have run: "list_operation ListOrders ?params ?r = Inr ?env"
    by code_simp
  have lim: "optional_limit ?params = JNum 1"
    by (simp add: optional_limit_def member_def)
  have rl: "requested_limit ?params = JNum 1"
    by (simp add: requested_limit_def lim)
  have ok: "optional_limit ?params = JUndefined \<or> (\<exists>n. optional_limit ?params = JNum n \<and> 1 \<le> n)"
    by (simp add: lim)
  from list_envelope [OF run ok] obtain items len
    where "member ?env ''items'' = Inr items" "member items ''length'' = Inr len"
      "member ?env ''count'' = Inr len"
      "member ?env ''hasMore'' = Inr (JBool (len = requested_limit ?params))"
    by blast
  then have "\<exists>items len. member ?env ''items'' = Inr items \<and> member items ''length'' = Inr len
      \<and> member ?env ''count'' = Inr len \<and> member ?env ''hasMore'' = Inr (JBool (len = JNum 1))"
    unfolding rl by blast
  with run lim rl show ?thesis by simp
qed

section \<open>The body of the create and update operations\<close>

lemma camelToSnake_wire_cased: "wire_cased k \<Longrightarrow> camelToSnake k = k"
  unfolding wire_cased_def by (induction k) simp_all

text \<open>
  Where the wrapper key is a single lower-case word, wrapping after the conversion is the
  same as converting the wrapped input, and the body is the one the specification describes.
\<close>

lemma wrapper_key_not_proto: "wrapper_key op \<noteq> ''__proto__''"
  by (cases op) simp_all

lemma write_body_single_word:
  "wire_cased (wrapper_key op) \<Longrightarrow> write_body op input = wire_body op input"
  by (simp add: write_body_def wire_body_def write_payload_def toSnakeCase_def
      assign_entries_def obj_set_def camelToSnake_wire_cased wrapper_key_not_proto)

text \<open>
  Claim C3 says that the body is the wire-cased conversion of the wrapped input, so that
  every key in it, the wrapper key of a multi-word resource included, is in wire casing.
  The operations convert the input only and wrap it afterwards under a camelCase key:
  \<open>createCustomCollection\<close> sends \<open>customCollection\<close> and \<open>createDraftOrder\<close> sends
  \<open>draftOrder\<close>, where the wire-cased bodies have \<open>custom_collection\<close> and \<open>draft_order\<close>.
  \<open>createProduct\<close>, whose key is one word, sends the wire-cased body.
\<close>

theorem multi_word_wrapper_key_body:
  \<open>write_body CreateCustomCollection (JObj [(''title'', JStr ''Sale''), (''bodyHtml'', JStr ''x'')])
     = Some ''{"customCollection":{"title":"Sale","body_html":"x"}}''
   \<and> wire_body CreateCustomCollection (JObj [(''title'', JStr ''Sale''), (''bodyHtml'', JStr ''x'')])
     = Some ''{"custom_collection":{"title":"Sale","body_html":"x"}}''
   \<and> all_keys (write_payload CreateCustomCollection
                  (JObj [(''title'', JStr ''Sale''), (''bodyHtml'', JStr ''x'')]))
     = [''customCollection'', ''title'', ''body_html'']
   \<and> \<not> wire_cased ''customCollection''
   \<and> write_body CreateDraftOrder (JObj [(''lineItems'', JArr [JObj [(''variantId'', JNum 7)]])])
     = Some ''{"draftOrder":{"line_items":[{"variant_id":7}]}}''
   \<and> wire_body CreateDraftOrder (JObj [(''lineItems'', JArr [JObj [(''variantId'', JNum 7)]])])
     = Some ''{"draft_order":{"line_items":[{"variant_id":7}]}}''
   \<and> write_body CreateProduct (JObj [(''title'', JStr ''Shirt''), (''productType'', JStr ''top'')])
     = Some ''{"product":{"title":"Shirt","product_type":"top"}}''
   \<and> wire_body CreateProduct (JObj [(''title'', JStr ''Shirt''), (''productType'', JStr ''top'')])
     = Some ''{"product":{"title":"Shirt","product_type":"top"}}''\<close>
  by code_simp

section \<open>Markdown rendering of a single entity\<close>

lemma object_step_field_lines:
  "object_step acc kv
     = (if snd kv \<noteq> JNull \<and> snd kv \<noteq> JUndefined then acc @ field_lines kv else acc)"
  by (cases kv) (simp add: object_step_def field_lines_def)

lemma foldl_object_step:
  "foldl object_step acc kvs
     = acc @ concat (map field_lines (filter (\<lambda>kv. snd kv \<noteq> JNull \<and> snd kv \<noteq> JUndefined) kvs))"
proof (induction kvs arbitrary: acc)
  case Nil
  show ?case by simp
next
  case (Cons kv kvs)
  show ?case
    unfolding foldl_Cons Cons.IH
    by (simp add: object_step_field_lines)
qed

text \<open>
  Claim C9. A single entity, that is an object which is not a paginated envelope, is rendered
  in Markdown mode as a heading, an empty line, and then for each top-level field whose value
  is not \<open>null\<close> or \<open>undefined\<close>, in order, either one line with the label and the value or,
  when the value is an object or an array, the label followed by a fenced code block with the
  pretty-printed JSON of the value.
\<close>

theorem single_entity_markdown:
  "\<not> isPaginatedResponse (JObj kvs) \<Longrightarrow>
     formatResponse (JObj kvs) Markdown entityType
       = Inr (Some (join [CHR 0x0A]
           ([''## '' @ capitalize (strip_final_s entityType), []]
            @ concat (map field_lines
                (filter (\<lambda>kv. snd kv \<noteq> JNull \<and> snd kv \<noteq> JUndefined) kvs)))))"
  by (simp add: formatResponse_def formatAsMarkdown_def formatObjectAsMarkdown_def
      foldl_object_step)

theorem single_entity_markdown_witness:
  \<open>\<not> isPaginatedResponse
       (JObj [(''id'', JNum 1001), (''note'', JNull),
              (''lineItems'', JArr [JObj [(''variantId'', JNum 7), (''quantity'', JNum 2)]])])
   \<and> formatResponse
       (JObj [(''id'', JNum 1001), (''note'', JNull),
              (''lineItems'', JArr [JObj [(''variantId'', JNum 7), (''quantity'', JNum 2)]])])
       Markdown ''order''
     = Inr (Some ''## Order\<newline>\<newline>**Id:** 1001\<newline>**Line Items:**\<newline>```json\<newline>[\<newline>  {\<newline>    "variantId": 7,\<newline>    "quantity": 2\<newline>  }\<newline>]\<newline>```'')\<close>
proof -
  let ?kvs = "[(''id'', JNum 1001), (''note'', JNull),
               (''lineItems'', JArr [JObj [(''variantId'', JNum 7), (''quantity'', JNum 2)]])]"
  have n: "\<not> isPaginatedResponse (JObj ?kvs)"
    by (simp add: isPaginatedResponse_def)
  have e: \<open>join [CHR 0x0A]
           ([''## '' @ capitalize (strip_final_s ''order''), []]
            @ concat (map field_lines
                (filter (\<lambda>kv. snd kv \<noteq> JNull \<and> snd kv \<noteq> JUndefined) ?kvs)))
     = ''## Order\<newline>\<newline>**Id:** 1001\<newline>**Line Items:**\<newline>```json\<newline>[\<newline>  {\<newline>    "variantId": 7,\<newline>    "quantity": 2\<newline>  }\<newline>]\<newline>```''\<close>
    by code_simp
  from single_entity_markdown [OF n, of "''order''"] e n show ?thesis
    by simp
qed

section \<open>Markdown rendering of a list result\<close>

lemma occurs_in_append: "occurs_in xs (p @ xs @ s)"
proof (induction p)
  case Nil
  have "starts_with xs (xs @ s)" by (induction xs) simp_all
  then show ?case by (cases "xs @ s") (auto elim: starts_with.elims)
next
  case (Cons c p)
  then show ?case by simp
qed

lemma join_member: "x \<in> set ls \<Longrightarrow> \<exists>p s. join sep ls = p @ x @ s"
proof (induction sep ls rule: join.induct)
  case (1 sep)
  then show ?case by simp
next
  case (2 sep y)
  then have "join sep [y] = [] @ x @ []" by simp
  then show ?case by blast
next
  case (3 sep y z zs)
  show ?case
  proof (cases "x = y")
    case True
    then have "join sep (y # z # zs) = [] @ x @ (sep @ join sep (z # zs))" by simp
    then show ?thesis by blast
  next
    case False
    with 3 obtain p s where "join sep (z # zs) = p @ x @ s" by auto
    then have "join sep (y # z # zs) = (y @ sep @ p) @ x @ s" by simp
    then show ?thesis by blast
  qed
qed

lemma occurs_in_join:
  assumes "x \<in> set ls" and "x = p @ needle @ s"
  shows "occurs_in needle (join sep ls)"
proof -
  from join_member [OF assms(1)] obtain p' s' where "join sep ls = p' @ x @ s'" by blast
  with assms(2) have "join sep ls = (p' @ p) @ needle @ (s @ s')" by simp
  then show ?thesis using occurs_in_append by metis
qed

text \<open>
  Claim C10. The envelope that a list operation returns has no \<open>nextCursor\<close>. When its
  \<open>hasMore\<close> is true, the Markdown rendering has the line about further items, written
  without a test of the cursor, and so the text contains \<open>cursor: `undefined`\<close>.
\<close>

theorem absent_cursor_rendered:
  assumes "list_operation op params r = Inr env"
    and "member env ''items'' = Inr (JArr xs)"
    and "member env ''hasMore'' = Inr (JBool True)"
    and "formatResponse env Markdown entityType = Inr (Some text)"
  shows "member env ''nextCursor'' = Inr JUndefined
     \<and> occurs_in ''cursor: `undefined`'' text"
proof -
  from assms(1) obtain data where p: "paginate (list_field op) params data = Inr env"
    by (auto simp: list_operation_def split: sum.splits)
  then obtain items len b where env: "env = JObj [(''items'', items), (''count'', len), (''hasMore'', JBool b)]"
    by (auto simp: paginate_def split: sum.splits)
  from assms(2) env have items: "items = JArr xs" by (simp add: member_def)
  from assms(3) env have b: "b" by (simp add: member_def)
  have nc: "member env ''nextCursor'' = Inr JUndefined"
    by (simp add: env member_def)
  have pg: "isPaginatedResponse env"
    by (simp add: env items isPaginatedResponse_def)
  let ?more = "''**More available:** Yes (cursor: `undefined`)''"
  have head: "?more \<in> set (paginated_head env entityType)"
    by (simp add: paginated_head_def field_def member_def env b)
  from assms(4) pg obtain last_line
    where t: "text = join [CHR 0x0A] (paginated_head env entityType @ [last_line])"
    by (auto simp: formatResponse_def formatAsMarkdown_def formatPaginatedAsMarkdown_def
        split: sum.splits if_splits)
  have m: "?more \<in> set (paginated_head env entityType @ [last_line])"
    using head by simp
  have "?more = ''**More available:** Yes ('' @ ''cursor: `undefined`'' @ '')''"
    by simp
  from occurs_in_join [OF m this] have "occurs_in ''cursor: `undefined`'' text"
    by (simp add: t)
  with nc show ?thesis by simp
qed

theorem absent_cursor_rendered_witness:
  "list_operation ListProducts (JObj [(''limit'', JNum 1)])
     \<lparr>status = 200, retry_after = None,
      body = Some (JObj [(''products'', JArr [JObj [(''id'', JNum 1), (''title'', JStr ''Shirt'')]])])\<rparr>
   = Inr (JObj [(''items'', JArr [JObj [(''id'', JNum 1), (''title'', JStr ''Shirt'')]]),
                (''count'', JNum 1), (''hasMore'', JBool True)])
   \<and> formatResponse
       (JObj [(''items'', JArr [JObj [(''id'', JNum 1), (''title'', JStr ''Shirt'')]]),
              (''count'', JNum 1), (''hasMore'', JBool True)])
       Markdown ''products''
     = Inr (Some ''## Products\<newline>\<newline>**Showing:** 1\<newline>**More available:** Yes (cursor: `undefined`)\<newline>\<newline>| ID | Title | Vendor | Status | Variants |\<newline>|---|---|---|---|---|\<newline>| 1 | Shirt | - | - | 0 |'')
   \<and> occurs_in ''cursor: `undefined`''
       ''## Products\<newline>\<newline>**Showing:** 1\<newline>**More available:** Yes (cursor: `undefined`)\<newline>\<newline>| ID | Title | Vendor | Status | Variants |\<newline>|---|---|---|---|---|\<newline>| 1 | Shirt | - | - | 0 |''"
proof -
  let ?params = "JObj [(''limit'', JNum 1)]"
  let ?r = "\<lparr>status = 200, retry_after = None,
      body = Some (JObj [(''products'', JArr [JObj [(''id'', JNum 1), (''title'', JStr ''Shirt'')]])])\<rparr>"
  let ?xs = "[JObj [(''id'', JNum 1), (''title'', JStr ''Shirt'')]]"
  let ?env = "JObj [(''items'', JArr ?xs), (''count'', JNum 1), (''hasMore'', JBool True)]"
  let ?text = "''## Products\<newline>\<newline>**Showing:** 1\<newline>**More available:** Yes (cursor: `undefined`)\<newline>\<newline>| ID | Title | Vendor | Status | Variants |\<newline>|---|---|---|---|---|\<newline>| 1 | Shirt | - | - | 0 |''"
  have run: "list_operation ListProducts ?params ?r = Inr ?env"
    by code_simp
  have items: "member ?env ''items'' = Inr (JArr ?xs)"
    by (simp add: member_def)
  have more: "member ?env ''hasMore'' = Inr (JBool True)"
    by (simp add: member_def)
  have fmt: "formatResponse ?env Markdown ''products'' = Inr (Some ?text)"
    by code_simp
  from absent_cursor_rendered [OF run items more fmt]
  have "occurs_in ''cursor: `undefined`'' ?text" by simp
  with run fmt show ?thesis by simp
qed


end
